theory Spec2Isabelle
  imports Complex_Main "HOL-Library.Word"
begin

unbundle bit_operations_syntax

section \<open>Machine types\<close>

type_synonym uint8_t = "8 word"
type_synonym int16_t = "16 word"
type_synonym uint16_t = "16 word"
type_synonym uint32_t = "32 word"

section \<open>Tajima (DST) decoder: displacement bit fields\<close>

text \<open>The macro \<open>bit(n)\<close> of the controller core is \<open>1 << n\<close>.\<close>

definition bit_mask :: "nat \<Rightarrow> uint8_t" where
  "bit_mask n = push_bit n 1"

text \<open>
  \<open>get_x\<close> and \<open>get_y\<close> accumulate in an \<open>int16_t\<close>, which is a 16-bit word here; the
  signed value is read with \<open>sint\<close>.
\<close>

definition get_x :: "uint8_t \<Rightarrow> uint8_t \<Rightarrow> uint8_t \<Rightarrow> int16_t" where
  "get_x b2 b1 b0 =
    (let x = 0;
         x = (if b2 AND bit_mask 2 \<noteq> 0 then x + 81 else x);
         x = (if b2 AND bit_mask 3 \<noteq> 0 then x - 81 else x);
         x = (if b1 AND bit_mask 2 \<noteq> 0 then x + 27 else x);
         x = (if b1 AND bit_mask 3 \<noteq> 0 then x - 27 else x);
         x = (if b0 AND bit_mask 2 \<noteq> 0 then x + 9 else x);
         x = (if b0 AND bit_mask 3 \<noteq> 0 then x - 9 else x);
         x = (if b1 AND bit_mask 0 \<noteq> 0 then x + 3 else x);
         x = (if b1 AND bit_mask 1 \<noteq> 0 then x - 3 else x);
         x = (if b0 AND bit_mask 0 \<noteq> 0 then x + 1 else x);
         x = (if b0 AND bit_mask 1 \<noteq> 0 then x - 1 else x)
     in x)"

definition get_y :: "uint8_t \<Rightarrow> uint8_t \<Rightarrow> uint8_t \<Rightarrow> int16_t" where
  "get_y b2 b1 b0 =
    (let y = 0;
         y = (if b2 AND bit_mask 5 \<noteq> 0 then y + 81 else y);
         y = (if b2 AND bit_mask 4 \<noteq> 0 then y - 81 else y);
         y = (if b1 AND bit_mask 5 \<noteq> 0 then y + 27 else y);
         y = (if b1 AND bit_mask 4 \<noteq> 0 then y - 27 else y);
         y = (if b0 AND bit_mask 5 \<noteq> 0 then y + 9 else y);
         y = (if b0 AND bit_mask 4 \<noteq> 0 then y - 9 else y);
         y = (if b1 AND bit_mask 7 \<noteq> 0 then y + 3 else y);
         y = (if b1 AND bit_mask 6 \<noteq> 0 then y - 3 else y);
         y = (if b0 AND bit_mask 7 \<noteq> 0 then y + 1 else y);
         y = (if b0 AND bit_mask 6 \<noteq> 0 then y - 1 else y)
     in y)"

subsection \<open>The reference bit-weight table\<close>

text \<open>
  A rule \<open>(k, n, w)\<close> reads: when bit \<open>n\<close> of byte \<open>b\<^sub>k\<close> is set, add the signed weight
  \<open>w\<close>. The two tables list the tests of \<open>get_x\<close> and \<open>get_y\<close> in source order.
\<close>

type_synonym rule = "nat \<times> nat \<times> int"

definition x_rules :: "rule list" where
  "x_rules = [(2, 2, 81), (2, 3, - 81), (1, 2, 27), (1, 3, - 27), (0, 2, 9), (0, 3, - 9),
              (1, 0, 3), (1, 1, - 3), (0, 0, 1), (0, 1, - 1)]"

definition y_rules :: "rule list" where
  "y_rules = [(2, 5, 81), (2, 4, - 81), (1, 5, 27), (1, 4, - 27), (0, 5, 9), (0, 4, - 9),
              (1, 7, 3), (1, 6, - 3), (0, 7, 1), (0, 6, - 1)]"

definition rule_value :: "uint8_t \<Rightarrow> uint8_t \<Rightarrow> uint8_t \<Rightarrow> rule \<Rightarrow> int" where
  "rule_value b2 b1 b0 r =
     (case r of (k, n, w) \<Rightarrow>
        if bit (if k = 0 then b0 else if k = 1 then b1 else b2) n then w else 0)"

definition table_sum :: "rule list \<Rightarrow> uint8_t \<Rightarrow> uint8_t \<Rightarrow> uint8_t \<Rightarrow> int" where
  "table_sum rs b2 b1 b0 = sum_list (map (rule_value b2 b1 b0) rs)"

definition rule_weights :: "rule list \<Rightarrow> int list" where
  "rule_weights rs = map (\<lambda>(k, n, w). w) rs"

definition rule_bits :: "rule list \<Rightarrow> (nat \<times> nat) list" where
  "rule_bits rs = map (\<lambda>(k, n, w). (k, n)) rs"

text \<open>
  The bits of a record an axis function reacts to, found by running it on the 24 records
  that have a single bit set: \<open>single_bit j k n\<close> is byte \<open>j\<close> of the record whose only set
  bit is bit \<open>n\<close> of byte \<open>k\<close>.
\<close>

definition single_bit :: "nat \<Rightarrow> nat \<Rightarrow> nat \<Rightarrow> uint8_t" where
  "single_bit j k n = (if j = k then bit_mask n else 0)"

definition tested_bits :: "(uint8_t \<Rightarrow> uint8_t \<Rightarrow> uint8_t \<Rightarrow> int16_t) \<Rightarrow> (nat \<times> nat) list" where
  "tested_bits f =
     filter (\<lambda>(k, n). f (single_bit 2 k n) (single_bit 1 k n) (single_bit 0 k n) \<noteq> 0)
       (concat (map (\<lambda>k. map (\<lambda>n. (k, n)) [0..<8]) [0, 1, 2]))"

text \<open>
  A balanced ternary digit \<open>t \<in> {-1, 0, 1}\<close> as a bit pair: bit \<open>p\<close> for \<open>+1\<close>, bit \<open>n\<close>
  for \<open>-1\<close>.
\<close>

definition trit :: "int \<Rightarrow> nat \<Rightarrow> nat \<Rightarrow> uint8_t" where
  "trit t p n = (if t = 1 then bit_mask p else if t = - 1 then bit_mask n else 0)"

section \<open>Stitches, files and the decoder interface\<close>

text \<open>
  \<open>float\<close> values are modelled as exact rationals: the rounding of a single-precision
  division is not part of the model.
\<close>

type_synonym float = rat

datatype stich_type_t = Stitch_Normal | Stitch_Trim | Stitch_Jump | Stitch_Stop | Stitch_SequinEject

record coord_data_t =
  coord_x :: float
  coord_y :: float
  coord_z :: float

record stitch_t =
  stitch_type :: stich_type_t
  stitch_color :: uint8_t
  stitch_target :: coord_data_t

text \<open>
  The virtual file system of the controller core, as the decoders use it: an open file is
  its content and a position; \<open>vfs_read\<close> copies up to \<open>n\<close> bytes from the position,
  advances it by the number of bytes copied and returns that number (here the length of
  the list); \<open>vfs_seek\<close> sets the position.
\<close>

record vfs_file_t =
  file_data :: "uint8_t list"
  file_pos :: nat

definition vfs_read :: "nat \<Rightarrow> vfs_file_t \<Rightarrow> uint8_t list \<times> vfs_file_t" where
  "vfs_read n file =
     (let bs = take n (drop (file_pos file) (file_data file))
      in (bs, file\<lparr>file_pos := file_pos file + length bs\<rparr>))"

definition vfs_seek :: "vfs_file_t \<Rightarrow> nat \<Rightarrow> vfs_file_t" where
  "vfs_seek file offset = file\<lparr>file_pos := offset\<rparr>"

text \<open>The bytes of a file from its position on.\<close>

definition file_rest :: "vfs_file_t \<Rightarrow> uint8_t list" where
  "file_rest file = drop (file_pos file) (file_data file)"

text \<open>
  \<open>strncmp(buf, lit, n) == 0\<close> for a literal without a NUL among its first \<open>n\<close>
  characters: the first \<open>n\<close> bytes agree.
\<close>

definition strncmp_eq :: "uint8_t list \<Rightarrow> uint8_t list \<Rightarrow> nat \<Rightarrow> bool" where
  "strncmp_eq buf lit n = (take n buf = take n lit)"

text \<open>
  The function pointers \<open>get_stitch\<close> and \<open>get_thread_color\<close> of \<open>embroidery_t\<close> name the
  decoder that installed them (\<open>None\<close> is the null pointer); \<open>name\<close> points into a static
  buffer of a decoder. The counts \<open>stitches\<close> and \<open>color_changes\<close> hold the number parsed
  from the header (the source converts it to \<open>uint32_t\<close>); the fields \<open>threads\<close> and \<open>trims\<close>,
  which nothing writes, are left out, and the two handler pointers are part of the system
  state further down.
\<close>

datatype decoder = Brother | Tajima

datatype name_ptr = Name_null | Name_pec_1_label | Name_tajima_buf

record embroidery_t =
  api_get_stitch :: "decoder option"
  api_get_thread_color :: "decoder option"
  api_name :: name_ptr
  api_stitches :: float
  api_color_changes :: float
  api_min :: coord_data_t
  api_max :: coord_data_t
  api_size :: coord_data_t

section \<open>Tajima (DST) decoder\<close>

text \<open>
  The statics of the Tajima decoder: \<open>first_color\<close> (an \<open>int32_t\<close> holding \<open>-1\<close> or a colour
  index) and the name buffer \<open>buf\<close> of \<open>tajima_open_file\<close>.
\<close>

record tajima_statics =
  tj_first_color :: int
  tj_buf :: "uint8_t list"

text \<open>The statics as the program starts: \<open>first_color = -1\<close>, the buffer zeroed.\<close>

definition tajima_statics_init :: tajima_statics where
  "tajima_statics_init = \<lparr>tj_first_color = - 1, tj_buf = replicate 21 0\<rparr>"

definition tajima_get_thread_color :: "uint8_t \<Rightarrow> string" where
  "tajima_get_thread_color color = ''None''"

text \<open>
  \<open>get_stitch\<close> of the Tajima decoder. The slot \<open>stitch\<close> is updated in place, so the fields
  a path does not assign keep the value they had. \<open>sm\<close> is a local of the function,
  initialised at every call.
\<close>

definition tajima_get_stitch ::
  "stitch_t \<Rightarrow> vfs_file_t \<Rightarrow> tajima_statics \<Rightarrow> bool \<times> stitch_t \<times> vfs_file_t \<times> tajima_statics" where
  "tajima_get_stitch stitch file st =
    (let sm = False in
     if tj_first_color st \<noteq> - 1 then
       (True,
        stitch\<lparr>stitch_type := Stitch_Stop, stitch_color := word_of_int (tj_first_color st)\<rparr>,
        file, st\<lparr>tj_first_color := - 1\<rparr>)
     else
       (case vfs_read 3 file of (sd, file) \<Rightarrow>
          if length sd = 3 then
            (let b0 = sd ! 0; b1 = sd ! 1; b2 = sd ! 2 in
             if b2 AND 0xF3 = 0xF3 then (False, stitch, file, st)
             else
               (let dx = get_x b2 b1 b0;
                    dy = get_y b2 b1 b0;
                    (sm, stitch) =
                      (if b2 AND 0xC3 = 0xC3 then (sm, stitch\<lparr>stitch_type := Stitch_Stop\<rparr>)
                       else if b2 AND 0x43 = 0x43 then (\<not> sm, stitch)
                       else if b2 AND 0x83 = 0x83 then
                         (sm, stitch\<lparr>stitch_type := (if sm then Stitch_SequinEject else Stitch_Jump)\<rparr>)
                       else (sm, stitch\<lparr>stitch_type := Stitch_Normal\<rparr>))
                in (True,
                    stitch\<lparr>stitch_target := (stitch_target stitch)
                       \<lparr>coord_x := of_int (sint dx) / 10, coord_y := of_int (sint dy) / 10\<rparr>\<rparr>,
                    file, st)))
          else (False, stitch, file, st)))"

text \<open>
  \<open>read_meta\<close> reads one metadata line into a buffer: it stops at the end of the data and
  at CR or LF (returning true) and at the character \<open>ASCII_EOF = 0x1A\<close> (returning false).
  \<open>read_meta_chars\<close> gives the result, the characters of the line, whether a CR or LF
  ended it, and the number of bytes read. The buffer receives a NUL first, then the
  characters of the line, and a NUL after them only when a CR or LF ended the line;
  \<open>store_buf\<close> overwrites the front of a buffer. The source writes a line of any length
  into a buffer of 21 or 20 bytes; the model keeps the whole line and has no overflow.
\<close>

fun read_meta_chars :: "uint8_t list \<Rightarrow> bool \<times> uint8_t list \<times> bool \<times> nat" where
  "read_meta_chars [] = (True, [], False, 0)"
| "read_meta_chars (c # cs) =
     (if c = 0x1A then (False, [], False, 1)
      else if c = 0x0D \<or> c = 0x0A then (True, [], True, 1)
      else (case read_meta_chars cs of (r, line, t, n) \<Rightarrow> (r, c # line, t, Suc n)))"

definition store_buf :: "uint8_t list \<Rightarrow> uint8_t list \<Rightarrow> uint8_t list" where
  "store_buf bs buf = bs @ drop (length bs) buf"

definition meta_written :: "uint8_t list \<Rightarrow> bool \<Rightarrow> uint8_t list" where
  "meta_written line t = (if t then line @ [0] else if line = [] then [0] else line)"

definition read_meta :: "vfs_file_t \<Rightarrow> bool \<times> uint8_t list \<times> uint8_t list \<times> vfs_file_t" where
  "read_meta file =
     (case read_meta_chars (drop (file_pos file) (file_data file)) of
        (r, line, t, n) \<Rightarrow> (r, line, meta_written line t, file\<lparr>file_pos := file_pos file + n\<rparr>))"

text \<open>
  One pass of the body of the metadata loop, on a line that a CR or LF ended. \<open>strcaps\<close>
  and \<open>read_float\<close> belong to the controller core and are parameters: \<open>read_float\<close> parses
  the number that starts at index 3 of the line.
\<close>

definition apply_meta ::
  "(uint8_t list \<Rightarrow> uint8_t list) \<Rightarrow> (uint8_t list \<Rightarrow> float option) \<Rightarrow>
     uint8_t list \<Rightarrow> embroidery_t \<Rightarrow> embroidery_t" where
  "apply_meta strcaps read_float line api =
     (let meta = strcaps line in
      case read_float meta of
        None \<Rightarrow> api
      | Some v \<Rightarrow>
          if strncmp_eq meta [0x53, 0x54, 0x3A] 3 then api\<lparr>api_stitches := v\<rparr>
          else if strncmp_eq meta [0x43, 0x4F, 0x3A] 3 then api\<lparr>api_color_changes := v\<rparr>
          else if strncmp_eq meta [0x2B, 0x58, 0x3A] 3 then
            api\<lparr>api_max := (api_max api)\<lparr>coord_x := v / 10\<rparr>\<rparr>
          else if strncmp_eq meta [0x2D, 0x58, 0x3A] 3 then
            api\<lparr>api_min := (api_min api)\<lparr>coord_x := - v / 10\<rparr>\<rparr>
          else if strncmp_eq meta [0x2B, 0x59, 0x3A] 3 then
            api\<lparr>api_max := (api_max api)\<lparr>coord_y := v / 10\<rparr>\<rparr>
          else if strncmp_eq meta [0x2D, 0x59, 0x3A] 3 then
            api\<lparr>api_min := (api_min api)\<lparr>coord_y := - v / 10\<rparr>\<rparr>
          else api)"

text \<open>
  The loop \<open>while(read_meta(meta, file))\<close> ends only when \<open>read_meta\<close> meets the character
  \<open>0x1A\<close>: at the end of the data \<open>read_meta\<close> returns true without reading, and the loop
  runs forever (so a line that the end of the data cut short is never the last one of a
  run that returns). \<open>None\<close> is a loop that does not return.
\<close>

partial_function (option) meta_loop ::
  "(uint8_t list \<Rightarrow> uint8_t list) \<Rightarrow> (uint8_t list \<Rightarrow> float option) \<Rightarrow>
     vfs_file_t \<Rightarrow> embroidery_t \<Rightarrow> (vfs_file_t \<times> embroidery_t) option" where
  "meta_loop strcaps read_float file api =
     (case read_meta file of (r, line, written, file') \<Rightarrow>
        if r then meta_loop strcaps read_float file' (apply_meta strcaps read_float line api)
        else Some (file', api))"

definition tajima_open_file ::
  "(uint8_t list \<Rightarrow> uint8_t list) \<Rightarrow> (uint8_t list \<Rightarrow> float option) \<Rightarrow>
     vfs_file_t \<Rightarrow> embroidery_t \<Rightarrow> tajima_statics \<Rightarrow>
     (bool \<times> vfs_file_t \<times> embroidery_t \<times> tajima_statics) option" where
  "tajima_open_file strcaps read_float file api st =
     (case vfs_read 3 file of (hd3, file) \<Rightarrow>
        let st = st\<lparr>tj_buf := store_buf hd3 (tj_buf st)\<rparr> in
        if length hd3 = 3 \<and> strncmp_eq (tj_buf st) [0x4C, 0x41, 0x3A] 3 then
          (case read_meta file of (r, name, written, file) \<Rightarrow>
             let st = st\<lparr>tj_buf := store_buf written (tj_buf st)\<rparr> in
             case meta_loop strcaps read_float file api of
               None \<Rightarrow> None
             | Some (file, api) \<Rightarrow>
                 Some (True, vfs_seek file 512,
                       api\<lparr>api_name := Name_tajima_buf, api_get_stitch := Some Tajima,
                           api_get_thread_color := Some Tajima\<rparr>,
                       st))
        else Some (False, vfs_seek file 0, api, st))"

section \<open>Brother (PES/PEC) decoder\<close>

text \<open>
  The statics of the Brother decoder. \<open>pec_1\<close> and \<open>pec_2\<close> are the byte buffers of the two
  unions (512 and 36 bytes), indexed from 0; with the members laid out at their natural
  alignment \<open>palette_index\<close> starts at byte 49 of \<open>pec_1\<close> and \<open>width\<close>, \<open>height\<close> are the
  little-endian 16-bit values at bytes 8 and 10 of \<open>pec_2\<close>.
\<close>

record brother_statics =
  br_pec_1 :: "nat \<Rightarrow> uint8_t"
  br_pec_2 :: "nat \<Rightarrow> uint8_t"
  br_first_color :: int
  br_color_idx :: int

text \<open>A read into a buffer overwrites as many bytes as were read.\<close>

definition fill_buf :: "uint8_t list \<Rightarrow> (nat \<Rightarrow> uint8_t) \<Rightarrow> (nat \<Rightarrow> uint8_t)" where
  "fill_buf bs buf = (\<lambda>i. if i < length bs then bs ! i else buf i)"

text \<open>\<open>palette_index\<close> has 256 entries; an index outside them is outside the array.\<close>

definition palette_index :: "(nat \<Rightarrow> uint8_t) \<Rightarrow> int \<Rightarrow> uint8_t option" where
  "palette_index pec_1 i = (if 0 \<le> i \<and> i < 256 then Some (pec_1 (49 + nat i)) else None)"

definition le16 :: "(nat \<Rightarrow> uint8_t) \<Rightarrow> nat \<Rightarrow> int16_t" where
  "le16 buf i = ucast (buf i) OR push_bit 8 (ucast (buf (i + 1)))"

definition pec_offset :: "uint8_t list \<Rightarrow> nat" where
  "pec_offset header =
     unat (header ! 8) + 2 ^ 8 * unat (header ! 9) + 2 ^ 16 * unat (header ! 10)
       + 2 ^ 24 * unat (header ! 11)"

record pec_thread =
  thread_index :: int
  thread_id :: string
  thread_code :: string
  thread_name :: string
  thread_kind :: string
  thread_rgb :: "int \<times> int \<times> int"

definition mk_thread :: "int \<Rightarrow> string \<Rightarrow> string \<Rightarrow> string \<Rightarrow> string \<Rightarrow> int \<times> int \<times> int \<Rightarrow> pec_thread" where
  "mk_thread i d c n k rgb =
     \<lparr>thread_index = i, thread_id = d, thread_code = c, thread_name = n, thread_kind = k,
      thread_rgb = rgb\<rparr>"

definition palette_thread_list :: "pec_thread list" where
  "palette_thread_list = [
    mk_thread 0 ''00'' ''000'' ''Undefined'' ''A'' (220, 220, 220),
    mk_thread 1 ''1'' ''000'' ''Prussian Blue'' ''A'' (26, 10, 148),
    mk_thread 2 ''2'' ''000'' ''Blue'' ''A'' (15, 117, 255),
    mk_thread 3 ''3'' ''000'' ''Teal Green'' ''A'' (0, 147, 76),
    mk_thread 4 ''4'' ''000'' ''Corn Flower Blue'' ''A'' (186, 189, 254),
    mk_thread 5 ''5'' ''000'' ''Red'' ''A'' (236, 0, 0),
    mk_thread 6 ''6'' ''000'' ''Reddish Brown'' ''A'' (228, 153, 90),
    mk_thread 7 ''7'' ''000'' ''Magenta'' ''A'' (204, 72, 171),
    mk_thread 8 ''8'' ''000'' ''Light Lilac'' ''A'' (253, 196, 250),
    mk_thread 9 ''9'' ''000'' ''Lilac'' ''A'' (221, 132, 205),
    mk_thread 10 ''10'' ''000'' ''Mint Green'' ''A'' (107, 211, 138),
    mk_thread 11 ''11'' ''000'' ''Deep Gold'' ''A'' (228, 169, 69),
    mk_thread 12 ''12'' ''000'' ''Orange'' ''A'' (255, 189, 66),
    mk_thread 13 ''13'' ''000'' ''Yellow'' ''A'' (255, 230, 0),
    mk_thread 14 ''14'' ''000'' ''Lime Green'' ''A'' (108, 217, 0),
    mk_thread 15 ''15'' ''000'' ''Brass'' ''A'' (193, 169, 65),
    mk_thread 16 ''16'' ''000'' ''Silver'' ''A'' (181, 173, 151),
    mk_thread 17 ''17'' ''000'' ''Russet Brown'' ''A'' (186, 156, 95),
    mk_thread 18 ''18'' ''000'' ''Cream Brown'' ''A'' (250, 245, 158),
    mk_thread 19 ''19'' ''000'' ''Pewter'' ''A'' (128, 128, 128),
    mk_thread 20 ''20'' ''000'' ''Black'' ''A'' (0, 0, 0),
    mk_thread 21 ''21'' ''000'' ''Ultramarine'' ''A'' (0, 28, 223),
    mk_thread 22 ''22'' ''000'' ''Royal Purple'' ''A'' (223, 0, 184),
    mk_thread 23 ''23'' ''000'' ''Dark Gray'' ''A'' (98, 98, 98),
    mk_thread 24 ''24'' ''000'' ''Dark Brown'' ''A'' (105, 38, 13),
    mk_thread 25 ''25'' ''000'' ''Deep Rose'' ''A'' (255, 0, 96),
    mk_thread 26 ''26'' ''000'' ''Light Brown'' ''A'' (191, 130, 0),
    mk_thread 27 ''27'' ''000'' ''Salmon Pink'' ''A'' (243, 145, 120),
    mk_thread 28 ''28'' ''000'' ''Vermillion'' ''A'' (255, 104, 5),
    mk_thread 29 ''29'' ''000'' ''White'' ''A'' (240, 240, 240),
    mk_thread 30 ''30'' ''000'' ''Violet'' ''A'' (200, 50, 205),
    mk_thread 31 ''31'' ''000'' ''Seacrest'' ''A'' (176, 191, 155),
    mk_thread 32 ''32'' ''000'' ''Sky Blue'' ''A'' (101, 191, 235),
    mk_thread 33 ''33'' ''000'' ''Pumpkin'' ''A'' (255, 186, 4),
    mk_thread 34 ''34'' ''000'' ''Cream Yellow'' ''A'' (255, 240, 108),
    mk_thread 35 ''35'' ''000'' ''Khaki'' ''A'' (254, 202, 21),
    mk_thread 36 ''36'' ''000'' ''Clay Brown'' ''A'' (243, 129, 1),
    mk_thread 37 ''37'' ''000'' ''Leaf Green'' ''A'' (55, 169, 35),
    mk_thread 38 ''38'' ''000'' ''Peacock Blue'' ''A'' (35, 70, 95),
    mk_thread 39 ''39'' ''000'' ''Gray'' ''A'' (166, 166, 149),
    mk_thread 40 ''40'' ''000'' ''Warm Gray'' ''A'' (206, 191, 166),
    mk_thread 41 ''41'' ''000'' ''Dark Olive'' ''A'' (150, 170, 2),
    mk_thread 42 ''42'' ''000'' ''Linen'' ''A'' (255, 227, 198),
    mk_thread 43 ''43'' ''000'' ''Pink'' ''A'' (255, 153, 215),
    mk_thread 44 ''44'' ''000'' ''Deep Green'' ''A'' (0, 112, 4),
    mk_thread 45 ''45'' ''000'' ''Lavender'' ''A'' (237, 204, 251),
    mk_thread 46 ''46'' ''000'' ''Wisteria Violet'' ''A'' (192, 137, 216),
    mk_thread 47 ''47'' ''000'' ''Beige'' ''A'' (231, 217, 180),
    mk_thread 48 ''48'' ''000'' ''Carmine'' ''A'' (233, 14, 134),
    mk_thread 49 ''49'' ''000'' ''Amber Red'' ''A'' (207, 104, 41),
    mk_thread 50 ''50'' ''000'' ''Olive Green'' ''A'' (64, 134, 21),
    mk_thread 51 ''51'' ''000'' ''Dark Fuschia'' ''A'' (219, 23, 151),
    mk_thread 52 ''52'' ''000'' ''Tangerine'' ''A'' (255, 167, 4),
    mk_thread 53 ''53'' ''000'' ''Light Blue'' ''A'' (185, 255, 255),
    mk_thread 54 ''54'' ''000'' ''Emerald Green'' ''A'' (34, 137, 39),
    mk_thread 55 ''55'' ''000'' ''Purple'' ''A'' (182, 18, 205),
    mk_thread 56 ''56'' ''000'' ''Moss Green'' ''A'' (0, 170, 0),
    mk_thread 57 ''57'' ''000'' ''Flesh Pink'' ''A'' (254, 169, 220),
    mk_thread 58 ''58'' ''000'' ''Harvest Gold'' ''A'' (254, 213, 16),
    mk_thread 59 ''59'' ''000'' ''Electric Blue'' ''A'' (0, 151, 223),
    mk_thread 60 ''60'' ''000'' ''Lemon Yellow'' ''A'' (255, 255, 132),
    mk_thread 61 ''61'' ''000'' ''Fresh Green'' ''A'' (207, 231, 116),
    mk_thread 62 ''62'' ''000'' ''Applique Material'' ''A'' (255, 200, 100),
    mk_thread 63 ''63'' ''000'' ''Applique Position'' ''A'' (255, 200, 200),
    mk_thread 64 ''64'' ''000'' ''Applique'' ''A'' (255, 200, 200)]"

text \<open>
  \<open>get_thread_color\<close> of the Brother decoder; \<open>sizeof(palette_thread_list) /
  sizeof(struct pec_thread)\<close> is the number of entries of the table.
\<close>

definition brother_get_thread_color :: "uint8_t \<Rightarrow> string" where
  "brother_get_thread_color color =
     thread_name (palette_thread_list !
        (if unat color \<ge> length palette_thread_list then 0 else unat color))"

text \<open>
  \<open>vfs_read(&cmd, 1, 1, file)\<close> with its result ignored: at the end of the data \<open>cmd\<close>
  keeps the value it had.
\<close>

definition read_cmd :: "uint8_t \<Rightarrow> vfs_file_t \<Rightarrow> uint8_t \<times> vfs_file_t" where
  "read_cmd cmd file =
     (case vfs_read 1 file of (bs, file') \<Rightarrow> (if length bs = 1 then bs ! 0 else cmd, file'))"

definition cmd_type :: "uint8_t \<Rightarrow> stich_type_t" where
  "cmd_type cmd =
     (if cmd AND 0x20 \<noteq> 0 then Stitch_Trim
      else if cmd AND 0x10 \<noteq> 0 then Stitch_Jump else Stitch_Normal)"

text \<open>The two encodings of an axis value, in an \<open>int16_t\<close>.\<close>

definition long_axis :: "uint8_t \<Rightarrow> uint8_t \<Rightarrow> int16_t" where
  "long_axis cmd nxt =
     (let d = push_bit 8 (ucast (cmd AND 0xF)) OR ucast nxt
      in if sint d > 0x7ff then d - 0x1000 else d)"

definition short_axis :: "uint8_t \<Rightarrow> int16_t" where
  "short_axis cmd = (let d = ucast cmd in if sint d > 0x3F then d - 0x80 else d)"

text \<open>
  The value of a one-byte axis code in the words of the format description: the byte
  itself up to \<open>0x3F\<close>, the byte minus \<open>0x80\<close> above.
\<close>

definition spec_short_axis :: "uint8_t \<Rightarrow> int" where
  "spec_short_axis c = (if uint c \<le> 0x3F then uint c else uint c - 0x80)"

datatype decode_error = Palette_index_out_of_range

text \<open>
  \<open>get_stitch\<close> of the Brother decoder. \<open>cmd0\<close> is the indeterminate value of the local
  \<open>cmd\<close> before the first read. The slot \<open>stitch\<close> is updated in place.
\<close>

definition brother_get_stitch ::
  "uint8_t \<Rightarrow> stitch_t \<Rightarrow> vfs_file_t \<Rightarrow> brother_statics \<Rightarrow>
     decode_error + bool \<times> stitch_t \<times> vfs_file_t \<times> brother_statics" where
  "brother_get_stitch cmd0 stitch file st =
    (if br_first_color st \<noteq> - 1 then
       Inr (True,
            stitch\<lparr>stitch_type := Stitch_Stop, stitch_color := word_of_int (br_first_color st),
                   stitch_target := (stitch_target stitch)\<lparr>coord_x := 0, coord_y := 0\<rparr>\<rparr>,
            file, st\<lparr>br_first_color := - 1\<rparr>)
     else
       (case read_cmd cmd0 file of (cmd, file) \<Rightarrow>
        let stitch = stitch\<lparr>stitch_type := Stitch_Normal\<rparr> in
        if cmd = 0xFF then Inr (False, stitch, file, st)
        else if cmd AND 0x80 \<noteq> 0 \<and> cmd = 0xFE then
          (let stitch = stitch\<lparr>stitch_type := Stitch_Stop\<rparr> in
           case read_cmd cmd file of (cmd, file) \<Rightarrow>
           case read_cmd cmd file of (cmd, file) \<Rightarrow>
           let st = st\<lparr>br_color_idx := br_color_idx st + 1\<rparr> in
           case palette_index (br_pec_1 st) (br_color_idx st) of
             None \<Rightarrow> Inl Palette_index_out_of_range
           | Some c \<Rightarrow>
               Inr (True,
                    stitch\<lparr>stitch_color := c,
                           stitch_target := (stitch_target stitch)\<lparr>coord_x := 0, coord_y := 0\<rparr>\<rparr>,
                    file, st))
        else
          (case
             (if cmd AND 0x80 \<noteq> 0 then
                (let stitch = stitch\<lparr>stitch_type := cmd_type cmd\<rparr> in
                 case read_cmd cmd file of (nxt, file) \<Rightarrow>
                 let dx = long_axis cmd nxt in
                 case read_cmd nxt file of (cmd, file) \<Rightarrow> (stitch, dx, cmd, file))
              else
                (let dx = short_axis cmd in
                 case read_cmd cmd file of (cmd, file) \<Rightarrow> (stitch, dx, cmd, file)))
           of (stitch, dx, cmd, file) \<Rightarrow>
           case
             (if cmd AND 0x80 \<noteq> 0 then
                (let stitch = stitch\<lparr>stitch_type := cmd_type cmd\<rparr> in
                 case read_cmd cmd file of (nxt, file) \<Rightarrow> (stitch, long_axis cmd nxt, file))
              else (stitch, short_axis cmd, file))
           of (stitch, dy, file) \<Rightarrow>
           Inr (True,
                stitch\<lparr>stitch_target := (stitch_target stitch)
                   \<lparr>coord_x := of_int (sint dx) / 10, coord_y := of_int (- sint dy) / 10\<rparr>\<rparr>,
                file, st))))"

definition brother_open_file ::
  "vfs_file_t \<Rightarrow> embroidery_t \<Rightarrow> brother_statics \<Rightarrow>
     bool \<times> vfs_file_t \<times> embroidery_t \<times> brother_statics" where
  "brother_open_file file api st =
     (case vfs_read 12 file of (header, file) \<Rightarrow>
        if length header = 12 \<and> strncmp_eq header [0x23, 0x50, 0x45, 0x53] 4 then
          (let file = vfs_seek file (pec_offset header) in
           case vfs_read 512 file of (s1, file) \<Rightarrow>
           let st = st\<lparr>br_pec_1 := fill_buf s1 (br_pec_1 st)\<rparr> in
           case vfs_read 36 file of (s2, file) \<Rightarrow>
           let st = st\<lparr>br_pec_2 := fill_buf s2 (br_pec_2 st)\<rparr>;
               st = st\<lparr>br_color_idx := 0\<rparr>;
               api = api\<lparr>api_name := Name_pec_1_label\<rparr>;
               api = api\<lparr>api_size := (api_size api)
                        \<lparr>coord_x := of_int (sint (le16 (br_pec_2 st) 8)),
                         coord_y := of_int (sint (le16 (br_pec_2 st) 10))\<rparr>\<rparr>;
               api = api\<lparr>api_get_stitch := Some Brother, api_get_thread_color := Some Brother\<rparr>;
               st = st\<lparr>br_first_color := uint (br_pec_1 st 49)\<rparr>
           in (True, file, api, st))
        else (False, vfs_seek file 0, api, st))"

section \<open>The job: stitch queue, counters and the real-time consumer\<close>

text \<open>\<open>STITCH_QUEUE_SIZE\<close>, a power of 2.\<close>

definition STITCH_QUEUE_SIZE :: nat where
  "STITCH_QUEUE_SIZE = 8"

text \<open>
  The indices \<open>head\<close> and \<open>tail\<close> are \<open>uint_fast8_t\<close>; they are natural numbers here and
  every update writes out the masking with \<open>STITCH_QUEUE_SIZE - 1\<close> as a remainder. The
  array of slots is a function on indices.
\<close>

record stitch_queue_t =
  queue_head :: nat
  queue_tail :: nat
  queue_stitch :: "nat \<Rightarrow> stitch_t"

record embroidery_job_details_t =
  det_jumps :: uint32_t
  det_stitches :: uint32_t
  det_trims :: uint32_t
  det_thread_changes :: uint32_t
  det_sequin_ejects :: uint32_t

text \<open>
  \<open>embroidery_await_t\<close> is a union of a 32-bit value with three one-bit flags; the other
  bits are never set, so the value is zero exactly when no flag is set.
\<close>

record embroidery_await_t =
  await_pause :: bool
  await_trigger :: bool
  await_jump :: bool

definition await_value :: "embroidery_await_t \<Rightarrow> uint32_t" where
  "await_value a = of_bool (await_pause a) + 2 * of_bool (await_trigger a) + 4 * of_bool (await_jump a)"

datatype sys_state_t = STATE_IDLE | STATE_CYCLE | STATE_HOLD | STATE_OTHER nat

text \<open>
  \<open>job_file\<close> tells whether \<open>job.file\<close> is non-null; of \<open>plan_data\<close> the job model keeps the
  fields the plugin writes.
\<close>

record embroidery_job_t =
  job_enqueued :: bool
  job_completed :: bool
  job_paused :: bool
  job_stitching :: bool
  job_first :: bool
  job_await :: embroidery_await_t
  job_trigger_interval :: uint32_t
  job_trigger_interval_min :: uint32_t
  job_last_trigger :: uint32_t
  job_stitch_interval :: uint32_t
  job_programmed :: embroidery_job_details_t
  job_executed :: embroidery_job_details_t
  job_errs :: uint32_t
  job_exced :: uint32_t
  job_breaks :: uint32_t
  job_spindle_stop :: uint32_t
  job_spindle_on :: bool
  job_machine_state :: sys_state_t
  job_file :: bool
  job_rapid_motion :: bool
  job_feed_rate :: float
  job_position :: coord_data_t
  job_color :: uint8_t
  job_queue :: stitch_queue_t

record embroidery_settings_t =
  cfg_feedrate :: float
  cfg_z_travel :: float
  cfg_sync_mode :: bool
  cfg_stop_delay :: uint16_t
  cfg_jump_port :: uint8_t
  cfg_debug_port :: uint8_t

definition IOPORT_UNASSIGNED :: uint8_t where
  "IOPORT_UNASSIGNED = 255"

text \<open>
  The calls the plugin makes into the controller core and the HAL, in the order made.
  Deferred work (\<open>task_add_immediate\<close>) is a task that the core runs later, outside the
  tick.
\<close>

datatype task = Exec_thread_trim | Exec_thread_change | Exec_hold

datatype effect =
    Chained_handler
  | Spindle_set_state bool
  | Mc_line coord_data_t bool
  | Coolant_mist bool
  | Digital_out uint8_t bool
  | Task_added task
  | Stream_restored
  | Vfs_closed
  | Cancel_read_buffer
  | Program_completed
  | Feedback_program_end
  | Report_message
  | Buffer_synchronize
  | Feed_hold
  | Execute_realtime
  | Custom_handler task

datatype handler = Default_handler | Plugin_handler

text \<open>
  The state the operations of \<open>embroidery.c\<close> share: the job, the statics \<open>busy\<close> (of
  \<open>onExecuteRealtime\<close>), \<open>last_ms\<close> (of \<open>onStateChanged\<close>) and \<open>active_stream\<close> (here: whether a
  stream is saved in it), the registered handlers, the decoder with its file (\<open>sys_decoder\<close>),
  the tasks the core holds (queued, and begun but not finished), and the trace of calls.
\<close>

record 'd system =
  sys_job :: embroidery_job_t
  sys_busy :: bool
  sys_last_ms :: uint32_t
  sys_active_stream :: bool
  sys_thread_trim :: handler
  sys_thread_change :: handler
  sys_decoder :: 'd
  sys_tasks :: "task list"
  sys_running :: "task list"
  sys_trace :: "effect list"

definition emit :: "effect list \<Rightarrow> 'd system \<Rightarrow> 'd system" where
  "emit es s = s\<lparr>sys_trace := sys_trace s @ es\<rparr>"

definition job_upd :: "(embroidery_job_t \<Rightarrow> embroidery_job_t) \<Rightarrow> 'd system \<Rightarrow> 'd system" where
  "job_upd f s = s\<lparr>sys_job := f (sys_job s)\<rparr>"

definition spindle_control :: "embroidery_settings_t \<Rightarrow> bool \<Rightarrow> 'd system \<Rightarrow> 'd system" where
  "spindle_control cfg on s =
     (if job_spindle_on (sys_job s) \<noteq> on then
        (let s = job_upd (\<lambda>j. j\<lparr>job_spindle_on := on\<rparr>) s
         in if cfg_sync_mode cfg then emit [Spindle_set_state on] s else s)
      else s)"

definition end_job :: "embroidery_settings_t \<Rightarrow> 'd system \<Rightarrow> 'd system" where
  "end_job cfg s =
     (let s = job_upd (\<lambda>j. j\<lparr>job_completed := True, job_enqueued := True\<rparr>) s;
          s = (if sys_active_stream s then emit [Stream_restored] (s\<lparr>sys_active_stream := False\<rparr>)
               else s);
          s = (if job_file (sys_job s) then
                 job_upd (\<lambda>j. j\<lparr>job_file := False\<rparr>) (emit [Vfs_closed] s)
               else s)
      in spindle_control cfg False s)"

definition jump_out :: "embroidery_settings_t \<Rightarrow> bool \<Rightarrow> 'd system \<Rightarrow> 'd system" where
  "jump_out cfg on s =
     (if cfg_jump_port cfg = IOPORT_UNASSIGNED then emit [Coolant_mist on] s
      else emit [Digital_out (cfg_jump_port cfg) on] s)"

text \<open>
  The default handlers \<open>thread_trim\<close> and \<open>thread_change\<close> synchronise with the motion
  buffer before they count. While they wait the core keeps running ticks, interrupts and
  state changes, so each handler is two steps: the part before the wait, and the part
  after it.
\<close>

definition thread_trim_begin :: "embroidery_settings_t \<Rightarrow> 'd system \<Rightarrow> 'd system" where
  "thread_trim_begin cfg s = emit [Report_message, Buffer_synchronize] (spindle_control cfg False s)"

definition thread_trim_end :: "'d system \<Rightarrow> 'd system" where
  "thread_trim_end s =
     job_upd (\<lambda>j. j\<lparr>job_executed := (job_executed j)\<lparr>det_trims := det_trims (job_executed j) + 1\<rparr>\<rparr>)
       (emit [Feed_hold, Execute_realtime] s)"

definition thread_change_begin :: "embroidery_settings_t \<Rightarrow> 'd system \<Rightarrow> 'd system" where
  "thread_change_begin cfg s = emit [Report_message, Buffer_synchronize] (spindle_control cfg False s)"

definition thread_change_end :: "'d system \<Rightarrow> 'd system" where
  "thread_change_end s =
     job_upd (\<lambda>j. j\<lparr>job_executed := (job_executed j)
                  \<lparr>det_thread_changes := det_thread_changes (job_executed j) + 1\<rparr>\<rparr>)
       (emit [Feed_hold, Execute_realtime] s)"

definition exec_hold_begin :: "embroidery_settings_t \<Rightarrow> 'd system \<Rightarrow> 'd system" where
  "exec_hold_begin cfg s = emit [Report_message, Buffer_synchronize] (spindle_control cfg False s)"

definition exec_hold_end :: "'d system \<Rightarrow> 'd system" where
  "exec_hold_end s =
     emit [Feed_hold, Execute_realtime,
           Mc_line (job_position (sys_job s)) (job_rapid_motion (sys_job s))] s"

text \<open>
  A task begins (\<open>exec_thread_trim\<close>, \<open>exec_thread_change\<close> call the registered handler,
  \<open>exec_hold\<close> runs its own body) and later ends. A handler registered by another plugin
  has no access to the job.
\<close>

definition task_begin :: "embroidery_settings_t \<Rightarrow> task \<Rightarrow> 'd system \<Rightarrow> 'd system" where
  "task_begin cfg t s =
     (case t of
        Exec_thread_trim \<Rightarrow>
          (if sys_thread_trim s = Default_handler then thread_trim_begin cfg s
           else emit [Custom_handler t] s)
      | Exec_thread_change \<Rightarrow>
          (if sys_thread_change s = Default_handler then thread_change_begin cfg s
           else emit [Custom_handler t] s)
      | Exec_hold \<Rightarrow> exec_hold_begin cfg s)"

definition task_end :: "task \<Rightarrow> 'd system \<Rightarrow> 'd system" where
  "task_end t s =
     (case t of
        Exec_thread_trim \<Rightarrow> (if sys_thread_trim s = Default_handler then thread_trim_end s else s)
      | Exec_thread_change \<Rightarrow>
          (if sys_thread_change s = Default_handler then thread_change_end s else s)
      | Exec_hold \<Rightarrow> exec_hold_end s)"

text \<open>\<open>task_add_immediate\<close>: \<open>ok\<close> is its result, false when the core has no free task slot.\<close>

definition task_add_immediate :: "bool \<Rightarrow> task \<Rightarrow> 'd system \<Rightarrow> 'd system" where
  "task_add_immediate ok t s =
     (if ok then emit [Task_added t] (s\<lparr>sys_tasks := sys_tasks s @ [t]\<rparr>) else s)"

definition onStateChanged ::
  "embroidery_settings_t \<Rightarrow> uint32_t \<Rightarrow> sys_state_t \<Rightarrow> 'd system \<Rightarrow> 'd system" where
  "onStateChanged cfg ticks state s =
     (if job_machine_state (sys_job s) = state then s
      else
        (let s = (case state of
                    STATE_IDLE \<Rightarrow>
                      (if await_jump (job_await (sys_job s)) then
                         job_upd (\<lambda>j. j\<lparr>job_await := (job_await j)\<lparr>await_jump := False\<rparr>\<rparr>)
                           (jump_out cfg False s)
                       else if job_stitching (sys_job s)
                               \<and> job_machine_state (sys_job s) = STATE_CYCLE then
                         (let ms = ticks - sys_last_ms s in
                          job_upd (\<lambda>j. j\<lparr>job_stitch_interval := max (job_stitch_interval j) ms\<rparr>) s)
                       else s)
                  | STATE_CYCLE \<Rightarrow> s\<lparr>sys_last_ms := ticks\<rparr>
                  | _ \<Rightarrow> s);
             s = (if job_machine_state (sys_job s) = STATE_HOLD then
                    job_upd (\<lambda>j. j\<lparr>job_await := (job_await j)\<lparr>await_pause := False\<rparr>\<rparr>) s
                  else s);
             s = job_upd (\<lambda>j. j\<lparr>job_machine_state := state\<rparr>) s;
             s = (if cfg_debug_port cfg \<noteq> IOPORT_UNASSIGNED then
                    emit [Digital_out (cfg_debug_port cfg) (state = STATE_CYCLE)] s
                  else s)
         in emit [Chained_handler] s))"

definition set_needle_trigger :: "uint32_t \<Rightarrow> 'd system \<Rightarrow> 'd system" where
  "set_needle_trigger ticks s =
     (let ms = ticks;
          count = (\<lambda>s. job_upd (\<lambda>j. j\<lparr>job_executed := (job_executed j)
                                    \<lparr>det_stitches := det_stitches (job_executed j) + 1\<rparr>,
                                  job_last_trigger := ms\<rparr>) s)
      in if await_trigger (job_await (sys_job s)) then
           (let s = job_upd (\<lambda>j. j\<lparr>job_trigger_interval := ms - job_last_trigger j\<rparr>) s;
                s = job_upd (\<lambda>j. j\<lparr>job_trigger_interval_min :=
                                     min (job_trigger_interval_min j) (job_trigger_interval j)\<rparr>) s
            in if job_machine_state (sys_job s) = STATE_CYCLE then
                 job_upd (\<lambda>j. j\<lparr>job_errs := job_errs j + 1\<rparr>) s
               else
                 count (job_upd (\<lambda>j. j\<lparr>job_await := (job_await j)\<lparr>await_trigger := False\<rparr>\<rparr>) s))
         else count s)"

definition thread_break :: "bool \<Rightarrow> 'd system \<Rightarrow> 'd system" where
  "thread_break task_ok s =
     (if job_file (sys_job s) \<and> \<not> await_pause (job_await (sys_job s)) then
        (let s = job_upd (\<lambda>j. j\<lparr>job_breaks := job_breaks j + 1\<rparr>) s
         in if det_stitches (job_executed (sys_job s)) > job_breaks (sys_job s) + 10 then
              task_add_immediate task_ok Exec_hold s
            else s)
      else s)"

text \<open>
  What a tick reads from the core: the elapsed ticks, the number of free planner blocks,
  the result of \<open>mc_line\<close>, the result of \<open>task_add_immediate\<close>, and whether a
  program-completed handler is registered.
\<close>

record tick_env =
  env_ticks :: uint32_t
  env_blocks :: nat
  env_mc_line :: bool
  env_task_ok :: bool
  env_on_program_completed :: bool

definition move_by :: "stitch_t \<Rightarrow> embroidery_job_t \<Rightarrow> embroidery_job_t" where
  "move_by stitch j =
     j\<lparr>job_position := (job_position j)
          \<lparr>coord_x := coord_x (job_position j) + coord_x (stitch_target stitch),
           coord_y := coord_y (job_position j) + coord_y (stitch_target stitch)\<rparr>\<rparr>"

definition mc_line :: "'d system \<Rightarrow> 'd system" where
  "mc_line s = emit [Mc_line (job_position (sys_job s)) (job_rapid_motion (sys_job s))] s"

text \<open>The \<open>switch\<close> of \<open>onExecuteRealtime\<close> on the type of the stitch taken from the queue.\<close>

definition dispatch ::
  "embroidery_settings_t \<Rightarrow> tick_env \<Rightarrow> stitch_t \<Rightarrow> 'd system \<Rightarrow> 'd system" where
  "dispatch cfg env stitch s =
     (case stitch_type stitch of
        Stitch_Normal \<Rightarrow>
          (let s = job_upd (\<lambda>j. j\<lparr>job_exced := job_exced j + 1, job_rapid_motion := False\<rparr>) s;
               s = job_upd (move_by stitch) s;
               s = job_upd (\<lambda>j. j\<lparr>job_first := \<not> job_spindle_on j\<rparr>) s;
               s = (if job_first (sys_job s) then spindle_control cfg True s else s);
               s = mc_line s;
               s = job_upd (\<lambda>j. j\<lparr>job_await := (job_await j)\<lparr>await_trigger := cfg_sync_mode cfg\<rparr>\<rparr>) s
           in if \<not> cfg_sync_mode cfg then
                (let s = job_upd (\<lambda>j. j\<lparr>job_position := (job_position j)
                                           \<lparr>coord_z := - cfg_z_travel cfg\<rparr>\<rparr>) s;
                     s = mc_line s;
                     s = job_upd (\<lambda>j. j\<lparr>job_position := (job_position j)
                                           \<lparr>coord_z := cfg_z_travel cfg\<rparr>\<rparr>) s
                 in mc_line s)
              else s)
      | Stitch_Jump \<Rightarrow>
          (let s = job_upd (\<lambda>j. j\<lparr>job_executed := (job_executed j)
                                     \<lparr>det_jumps := det_jumps (job_executed j) + 1\<rparr>,
                                   job_rapid_motion := True\<rparr>) s;
               s = job_upd (move_by stitch) s;
               s = mc_line s
           in job_upd (\<lambda>j. j\<lparr>job_await := (job_await j)\<lparr>await_jump := env_mc_line env\<rparr>\<rparr>) s)
      | Stitch_Trim \<Rightarrow>
          (let s = job_upd (\<lambda>j. j\<lparr>job_await := (job_await j)\<lparr>await_pause := True\<rparr>,
                                   job_rapid_motion := True,
                                   job_spindle_stop := ucast (cfg_stop_delay cfg)\<rparr>) s;
               s = job_upd (move_by stitch) s;
               s = mc_line s
           in task_add_immediate (env_task_ok env) Exec_thread_trim s)
      | Stitch_Stop \<Rightarrow>
          (let s = job_upd (\<lambda>j. j\<lparr>job_await := (job_await j)\<lparr>await_pause := True\<rparr>,
                                   job_rapid_motion := True\<rparr>) s;
               s = job_upd (move_by stitch) s;
               s = job_upd (\<lambda>j. j\<lparr>job_color := stitch_color stitch\<rparr>) s;
               s = task_add_immediate (env_task_ok env) Exec_thread_change s
           in job_upd (\<lambda>j. j\<lparr>job_spindle_stop := ucast (cfg_stop_delay cfg)\<rparr>) s)
      | Stitch_SequinEject \<Rightarrow> s)"

text \<open>The look-ahead of \<open>onExecuteRealtime\<close>, after the tail has been advanced.\<close>

definition look_ahead :: "embroidery_settings_t \<Rightarrow> 'd system \<Rightarrow> 'd system" where
  "look_ahead cfg s =
     (let q = job_queue (sys_job s) in
      if job_stitching (sys_job s) then
        (if queue_tail q \<noteq> queue_head q \<and> stitch_type (queue_stitch q (queue_tail q)) \<noteq> Stitch_Normal
         then
           (if stitch_type (queue_stitch q (queue_tail q)) = Stitch_Jump then jump_out cfg True s
            else if cfg_stop_delay cfg \<noteq> 0 then
              job_upd (\<lambda>j. j\<lparr>job_spindle_stop := ucast (cfg_stop_delay cfg)\<rparr>) s
            else s)
         else s)
      else s)"

text \<open>
  \<open>onExecuteRealtime\<close> in three parts: the deferred stop of the needle motor that comes
  first, the guards, and the part from \<open>busy = true\<close> to \<open>busy = false\<close> that takes the
  stitch at the tail out of the queue and dispatches it.
\<close>

definition stop_due :: "tick_env \<Rightarrow> embroidery_job_t \<Rightarrow> bool" where
  "stop_due env j =
     (job_spindle_stop j \<noteq> 0 \<and> env_ticks env - job_last_trigger j \<ge> job_spindle_stop j)"

definition deferred_stop :: "embroidery_settings_t \<Rightarrow> tick_env \<Rightarrow> 'd system \<Rightarrow> 'd system" where
  "deferred_stop cfg env s =
     (if stop_due env (sys_job s) then
        job_upd (\<lambda>j. j\<lparr>job_spindle_stop := 0\<rparr>) (spindle_control cfg False s)
      else s)"

definition take_stitch :: "embroidery_settings_t \<Rightarrow> tick_env \<Rightarrow> 'd system \<Rightarrow> 'd system" where
  "take_stitch cfg env s =
     (let stitch = queue_stitch (job_queue (sys_job s)) (queue_tail (job_queue (sys_job s)));
          s = s\<lparr>sys_busy := True\<rparr>;
          s = job_upd (\<lambda>j. j\<lparr>job_queue := (job_queue j)
                 \<lparr>queue_tail := (queue_tail (job_queue j) + 1) mod STITCH_QUEUE_SIZE\<rparr>\<rparr>) s;
          s = look_ahead cfg s;
          s = job_upd (\<lambda>j. j\<lparr>job_stitching := (stitch_type stitch = Stitch_Normal)\<rparr>) s;
          s = (if \<not> job_stitching (sys_job s) \<and> cfg_stop_delay cfg = 0 then
                 job_upd (\<lambda>j. j\<lparr>job_spindle_stop := 0\<rparr>) (spindle_control cfg False s)
               else s);
          s = dispatch cfg env stitch s
      in s\<lparr>sys_busy := False\<rparr>)"

definition onExecuteRealtime :: "embroidery_settings_t \<Rightarrow> tick_env \<Rightarrow> 'd system \<Rightarrow> 'd system" where
  "onExecuteRealtime cfg env s =
     (let s = emit [Chained_handler] s in
      if sys_busy s \<or> job_completed (sys_job s) then s
      else
        (let s = deferred_stop cfg env s in
         if await_value (job_await (sys_job s)) \<noteq> 0 then s
         else if job_enqueued (sys_job s)
                 \<and> queue_tail (job_queue (sys_job s)) = queue_head (job_queue (sys_job s)) then
           (let s = end_job cfg s;
                s = emit [Cancel_read_buffer] s;
                s = (if env_on_program_completed env then emit [Program_completed] s else s)
            in emit [Feedback_program_end] s)
         else if env_blocks env < 3 then s
         else if \<not> job_stitching (sys_job s)
                 \<and> stitch_type (queue_stitch (job_queue (sys_job s))
                                  (queue_tail (job_queue (sys_job s)))) = Stitch_Normal
                 \<and> job_machine_state (sys_job s) \<noteq> STATE_IDLE then s
         else take_stitch cfg env s))"

text \<open>
  \<open>sdcard_read\<close>, the producer. \<open>get_stitch\<close> is the decoder that \<open>api.get_stitch\<close> points to,
  acting on a slot and on the decoder state (file and statics). The function always
  returns \<open>SERIAL_NO_DATA\<close>, which is left out.
\<close>

definition count_programmed :: "stich_type_t \<Rightarrow> embroidery_job_details_t \<Rightarrow> embroidery_job_details_t" where
  "count_programmed t p =
     (case t of
        Stitch_Normal \<Rightarrow> p\<lparr>det_stitches := det_stitches p + 1\<rparr>
      | Stitch_Jump \<Rightarrow> p\<lparr>det_jumps := det_jumps p + 1\<rparr>
      | Stitch_Trim \<Rightarrow> p\<lparr>det_trims := det_trims p + 1\<rparr>
      | Stitch_Stop \<Rightarrow> p\<lparr>det_thread_changes := det_thread_changes p + 1\<rparr>
      | Stitch_SequinEject \<Rightarrow> p\<lparr>det_sequin_ejects := det_sequin_ejects p + 1\<rparr>)"

definition sdcard_read ::
  "(stitch_t \<Rightarrow> 'd \<Rightarrow> bool \<times> stitch_t \<times> 'd) \<Rightarrow> 'd system \<Rightarrow> 'd system" where
  "sdcard_read get_stitch s =
     (if \<not> job_enqueued (sys_job s) then
        (let q = job_queue (sys_job s);
             bptr = (queue_head q + 1) mod STITCH_QUEUE_SIZE
         in if bptr \<noteq> queue_tail q then
              (case get_stitch (queue_stitch q (queue_head q)) (sys_decoder s) of
                 (ok, stitch, d) \<Rightarrow>
                   (let s = s\<lparr>sys_decoder := d\<rparr>;
                        s = job_upd (\<lambda>j. j\<lparr>job_queue := (job_queue j)
                               \<lparr>queue_stitch := (queue_stitch (job_queue j))
                                    (queue_head (job_queue j) := stitch)\<rparr>\<rparr>) s;
                        s = job_upd (\<lambda>j. j\<lparr>job_enqueued := \<not> ok\<rparr>) s
                    in if \<not> job_enqueued (sys_job s) then
                         (let s = job_upd (\<lambda>j. j\<lparr>job_programmed :=
                                     count_programmed (stitch_type stitch) (job_programmed j)\<rparr>) s
                          in job_upd (\<lambda>j. j\<lparr>job_queue := (job_queue j)\<lparr>queue_head := bptr\<rparr>\<rparr>) s)
                       else s))
            else s)
      else s)"

text \<open>
  The part of \<open>onFileOpen\<close> that arms the job for streaming, after a decoder has accepted
  the file: \<open>mpos\<close> is the machine position the core reports.
\<close>

definition zero_details :: embroidery_job_details_t where
  "zero_details = \<lparr>det_jumps = 0, det_stitches = 0, det_trims = 0, det_thread_changes = 0,
                   det_sequin_ejects = 0\<rparr>"

definition start_job :: "embroidery_settings_t \<Rightarrow> coord_data_t \<Rightarrow> 'd system \<Rightarrow> 'd system" where
  "start_job cfg mpos s =
     job_upd (\<lambda>j. j\<lparr>job_file := True,
                    job_completed := False, job_enqueued := False, job_stitching := False,
                    job_queue := (job_queue j)\<lparr>queue_head := 0, queue_tail := 0\<rparr>,
                    job_stitch_interval := 0, job_trigger_interval := 0,
                    job_await := \<lparr>await_pause = False, await_trigger = False, await_jump = False\<rparr>,
                    job_breaks := 0,
                    job_feed_rate := cfg_feedrate cfg, job_rapid_motion := True,
                    job_position := mpos,
                    job_programmed := zero_details, job_executed := zero_details,
                    job_trigger_interval_min := 10000, job_errs := 0, job_exced := 0\<rparr>)
       (s\<lparr>sys_active_stream := True\<rparr>)"

text \<open>
  The guards of \<open>onExecuteRealtime\<close> under which it goes on to take the stitch at the tail
  out of the queue (none of the fields they read is written before them).
\<close>

definition tick_dispatches :: "tick_env \<Rightarrow> 'd system \<Rightarrow> bool" where
  "tick_dispatches env s =
     (let j = sys_job s; q = job_queue j in
      \<not> sys_busy s \<and> \<not> job_completed j \<and> await_value (job_await j) = 0 \<and>
      \<not> (job_enqueued j \<and> queue_tail q = queue_head q) \<and> \<not> env_blocks env < 3 \<and>
      \<not> (\<not> job_stitching j \<and> stitch_type (queue_stitch q (queue_tail q)) = Stitch_Normal
           \<and> job_machine_state j \<noteq> STATE_IDLE))"

subsection \<open>The queue as a list\<close>

definition queue_len :: "stitch_queue_t \<Rightarrow> nat" where
  "queue_len q = (queue_head q + STITCH_QUEUE_SIZE - queue_tail q) mod STITCH_QUEUE_SIZE"

definition queued :: "stitch_queue_t \<Rightarrow> stitch_t list" where
  "queued q = map (\<lambda>i. queue_stitch q ((queue_tail q + i) mod STITCH_QUEUE_SIZE)) [0..<queue_len q]"

definition queue_ok :: "stitch_queue_t \<Rightarrow> bool" where
  "queue_ok q = (queue_head q < STITCH_QUEUE_SIZE \<and> queue_tail q < STITCH_QUEUE_SIZE)"

subsection \<open>Runs of a job\<close>

text \<open>
  What can happen to an open job, one event at a time: the input stream is polled
  (\<open>sdcard_read\<close>), the core runs a real-time tick, the needle sensor fires
  (\<open>set_needle_trigger\<close>, with the elapsed ticks), the machine state changes, the thread
  break input fires, the core begins the next deferred task or finishes the one begun
  last, and the controller is reset (\<open>sdcard_reset\<close>, which ends the job). Each event runs
  to its end before the next one starts.
\<close>

datatype event =
    Ev_sdcard_read
  | Ev_tick tick_env
  | Ev_needle_trigger uint32_t
  | Ev_state_changed uint32_t sys_state_t
  | Ev_thread_break bool
  | Ev_task_begin
  | Ev_task_end
  | Ev_reset

definition step ::
  "embroidery_settings_t \<Rightarrow> (stitch_t \<Rightarrow> 'd \<Rightarrow> bool \<times> stitch_t \<times> 'd) \<Rightarrow> event \<Rightarrow>
     'd system \<Rightarrow> 'd system" where
  "step cfg get_stitch ev s =
     (case ev of
        Ev_sdcard_read \<Rightarrow> sdcard_read get_stitch s
      | Ev_tick env \<Rightarrow> onExecuteRealtime cfg env s
      | Ev_needle_trigger ticks \<Rightarrow> set_needle_trigger ticks s
      | Ev_state_changed ticks state \<Rightarrow> onStateChanged cfg ticks state s
      | Ev_thread_break task_ok \<Rightarrow> thread_break task_ok s
      | Ev_task_begin \<Rightarrow>
          (case sys_tasks s of
             [] \<Rightarrow> s
           | t # ts \<Rightarrow> task_begin cfg t (s\<lparr>sys_tasks := ts, sys_running := t # sys_running s\<rparr>))
      | Ev_task_end \<Rightarrow>
          (case sys_running s of
             [] \<Rightarrow> s
           | t # ts \<Rightarrow> task_end t (s\<lparr>sys_running := ts\<rparr>))
      | Ev_reset \<Rightarrow> end_job cfg s)"

fun run ::
  "embroidery_settings_t \<Rightarrow> (stitch_t \<Rightarrow> 'd \<Rightarrow> bool \<times> stitch_t \<times> 'd) \<Rightarrow> event list \<Rightarrow>
     'd system \<Rightarrow> 'd system" where
  "run cfg get_stitch [] s = s"
| "run cfg get_stitch (ev # evs) s = run cfg get_stitch evs (step cfg get_stitch ev s)"

text \<open>An event takes a stitch out of an empty queue: a tick that advances the tail while
  \<open>head = tail\<close>.\<close>

definition pops_empty :: "embroidery_settings_t \<Rightarrow> event \<Rightarrow> 'd system \<Rightarrow> bool" where
  "pops_empty cfg ev s =
     (case ev of
        Ev_tick env \<Rightarrow>
          queue_head (job_queue (sys_job s)) = queue_tail (job_queue (sys_job s)) \<and>
          queue_tail (job_queue (sys_job (onExecuteRealtime cfg env s)))
            \<noteq> queue_tail (job_queue (sys_job s))
      | _ \<Rightarrow> False)"

text \<open>A run in which no event takes a stitch out of an empty queue.\<close>

fun fed_run ::
  "embroidery_settings_t \<Rightarrow> (stitch_t \<Rightarrow> 'd \<Rightarrow> bool \<times> stitch_t \<times> 'd) \<Rightarrow> event list \<Rightarrow>
     'd system \<Rightarrow> bool" where
  "fed_run cfg get_stitch [] s = True"
| "fed_run cfg get_stitch (ev # evs) s =
     (\<not> pops_empty cfg ev s \<and> fed_run cfg get_stitch evs (step cfg get_stitch ev s))"

text \<open>
  The number of queued stitches of a type, the number of deferred tasks of a kind that the
  core still holds, and the relation between the counters that a run keeps: \<open>n\<close> bounds
  the programmed counters (it is the number of events so far).
\<close>

definition count_type :: "stich_type_t \<Rightarrow> stitch_queue_t \<Rightarrow> nat" where
  "count_type t q = length (filter (\<lambda>st. stitch_type st = t) (queued q))"

definition count_task :: "task \<Rightarrow> 'd system \<Rightarrow> nat" where
  "count_task t s = length (filter (\<lambda>x. x = t) (sys_tasks s @ sys_running s))"

definition counters_ok :: "nat \<Rightarrow> 'd system \<Rightarrow> bool" where
  "counters_ok n s =
     (let j = sys_job s; p = job_programmed j; e = job_executed j; q = job_queue j in
      queue_ok q \<and>
      unat (det_jumps e) + count_type Stitch_Jump q \<le> unat (det_jumps p) \<and>
      unat (det_jumps p) \<le> n \<and>
      unat (det_trims e) + count_task Exec_thread_trim s + count_type Stitch_Trim q
        \<le> unat (det_trims p) \<and>
      unat (det_trims p) \<le> n \<and>
      unat (det_thread_changes e) + count_task Exec_thread_change s + count_type Stitch_Stop q
        \<le> unat (det_thread_changes p) \<and>
      unat (det_thread_changes p) \<le> n \<and>
      det_sequin_ejects e = 0)"

text \<open>Elementwise comparison of two sets of counters, and the same without the stitches.\<close>

definition details_le :: "embroidery_job_details_t \<Rightarrow> embroidery_job_details_t \<Rightarrow> bool" where
  "details_le e p =
     (det_stitches e \<le> det_stitches p \<and> det_jumps e \<le> det_jumps p \<and> det_trims e \<le> det_trims p \<and>
      det_thread_changes e \<le> det_thread_changes p \<and> det_sequin_ejects e \<le> det_sequin_ejects p)"

definition details_le_moves :: "embroidery_job_details_t \<Rightarrow> embroidery_job_details_t \<Rightarrow> bool" where
  "details_le_moves e p =
     (det_jumps e \<le> det_jumps p \<and> det_trims e \<le> det_trims p \<and>
      det_thread_changes e \<le> det_thread_changes p \<and> det_sequin_ejects e \<le> det_sequin_ejects p)"

section \<open>Example inputs\<close>

text \<open>A queue slot with arbitrary old content, and an \<open>embroidery_t\<close> before any open.\<close>

definition slot0 :: stitch_t where
  "slot0 = \<lparr>stitch_type = Stitch_Trim, stitch_color = 0,
            stitch_target = \<lparr>coord_x = 0, coord_y = 0, coord_z = 0\<rparr>\<rparr>"

definition api0 :: embroidery_t where
  "api0 = \<lparr>api_get_stitch = None, api_get_thread_color = None, api_name = Name_null,
     api_stitches = 0, api_color_changes = 0,
     api_min = \<lparr>coord_x = 0, coord_y = 0, coord_z = 0\<rparr>,
     api_max = \<lparr>coord_x = 0, coord_y = 0, coord_z = 0\<rparr>,
     api_size = \<lparr>coord_x = 0, coord_y = 0, coord_z = 0\<rparr>\<rparr>"

text \<open>
  A Tajima file: the header \<open>LA:\<close> with an empty name, the end of the metadata, padding up
  to offset 512 and one record, a stitch of \<open>+1\<close> in x.
\<close>

definition dst_file :: vfs_file_t where
  "dst_file = \<lparr>file_data = [0x4C, 0x41, 0x3A, 0x0D, 0x1A] @ replicate 507 0 @ [0x01, 0x00, 0x03],
               file_pos = 0\<rparr>"

text \<open>Two Tajima records: one that matches the sequin mask, one that matches the jump mask.\<close>

definition seq_file :: vfs_file_t where
  "seq_file = \<lparr>file_data = [0x00, 0x00, 0x43, 0x00, 0x00, 0x83], file_pos = 0\<rparr>"

text \<open>
  A Brother file: the 12-byte header with the PEC section at offset 12, the first section
  with palette index 7 in first place, the second section, and the record \<open>[0x05, 0x05]\<close>
  followed by the end mark.
\<close>

definition pes_file :: vfs_file_t where
  "pes_file = \<lparr>file_data = [0x23, 0x50, 0x45, 0x53, 0x30, 0x30, 0x30, 0x31, 12, 0, 0, 0]
                  @ replicate 49 0 @ [7] @ replicate 462 0 @ replicate 36 0 @ [0x05, 0x05, 0xFF],
               file_pos = 0\<rparr>"

definition brother_statics_init :: brother_statics where
  "brother_statics_init =
     \<lparr>br_pec_1 = (\<lambda>i. 0), br_pec_2 = (\<lambda>i. 0), br_first_color = - 1, br_color_idx = 0\<rparr>"

text \<open>
  The job as the program starts (\<open>job = {0}\<close>), the system around it with a Tajima
  decoder on \<open>dst_file\<close>, the settings that \<open>embroidery_settings_restore\<close> writes, and a core
  with free planner blocks.
\<close>

definition job_zero :: embroidery_job_t where
  "job_zero =
     \<lparr>job_enqueued = False, job_completed = False, job_paused = False, job_stitching = False,
      job_first = False,
      job_await = \<lparr>await_pause = False, await_trigger = False, await_jump = False\<rparr>,
      job_trigger_interval = 0, job_trigger_interval_min = 0, job_last_trigger = 0,
      job_stitch_interval = 0, job_programmed = zero_details, job_executed = zero_details,
      job_errs = 0, job_exced = 0, job_breaks = 0, job_spindle_stop = 0, job_spindle_on = False,
      job_machine_state = STATE_IDLE, job_file = False, job_rapid_motion = False,
      job_feed_rate = 0, job_position = \<lparr>coord_x = 0, coord_y = 0, coord_z = 0\<rparr>,
      job_color = 0,
      job_queue = \<lparr>queue_head = 0, queue_tail = 0, queue_stitch = (\<lambda>i. slot0)\<rparr>\<rparr>"

definition sys_zero :: "(vfs_file_t \<times> tajima_statics) system" where
  "sys_zero =
     \<lparr>sys_job = job_zero, sys_busy = False, sys_last_ms = 0, sys_active_stream = False,
      sys_thread_trim = Default_handler, sys_thread_change = Default_handler,
      sys_decoder = (dst_file\<lparr>file_pos := 512\<rparr>, tajima_statics_init),
      sys_tasks = [], sys_running = [], sys_trace = []\<rparr>"

definition cfg_default :: embroidery_settings_t where
  "cfg_default =
     \<lparr>cfg_feedrate = 4000, cfg_z_travel = 10, cfg_sync_mode = True, cfg_stop_delay = 0,
      cfg_jump_port = IOPORT_UNASSIGNED, cfg_debug_port = IOPORT_UNASSIGNED\<rparr>"

definition env_free :: tick_env where
  "env_free = \<lparr>env_ticks = 10, env_blocks = 10, env_mc_line = False, env_task_ok = True,
               env_on_program_completed = False\<rparr>"

text \<open>The Tajima decoder as \<open>sdcard_read\<close> calls it, on a file and the statics.\<close>

definition tajima_decoder ::
  "stitch_t \<Rightarrow> vfs_file_t \<times> tajima_statics \<Rightarrow> bool \<times> stitch_t \<times> (vfs_file_t \<times> tajima_statics)" where
  "tajima_decoder stitch d =
     (case tajima_get_stitch stitch (fst d) (snd d) of (ok, stitch, file, st) \<Rightarrow> (ok, stitch, (file, st)))"

text \<open>
  Three job states: one that waits for a thread event while a stop of the needle motor is
  due, one that has decoded the whole file and emptied the queue, and one that has just
  been opened, with an empty queue and the file not yet read.
\<close>

definition s_await :: "(vfs_file_t \<times> tajima_statics) system" where
  "s_await =
     sys_zero\<lparr>sys_job := job_zero
        \<lparr>job_await := \<lparr>await_pause = True, await_trigger = False, await_jump = False\<rparr>,
         job_spindle_stop := 5, job_spindle_on := True, job_file := True\<rparr>\<rparr>"

definition s_eof :: "(vfs_file_t \<times> tajima_statics) system" where
  "s_eof = sys_zero\<lparr>sys_job := job_zero\<lparr>job_enqueued := True, job_file := True\<rparr>\<rparr>"

definition s_open :: "(vfs_file_t \<times> tajima_statics) system" where
  "s_open = start_job cfg_default \<lparr>coord_x = 0, coord_y = 0, coord_z = 0\<rparr> sys_zero"

text \<open>A job whose queue is full, and a short run of \<open>s_open\<close> to the end of its file.\<close>

definition s_full :: "(vfs_file_t \<times> tajima_statics) system" where
  "s_full = sys_zero\<lparr>sys_job := job_zero
      \<lparr>job_file := True,
       job_queue := \<lparr>queue_head = 7, queue_tail = 0, queue_stitch = (\<lambda>i. slot0)\<rparr>\<rparr>\<rparr>"

definition short_run :: "event list" where
  "short_run = [Ev_sdcard_read, Ev_tick env_free, Ev_needle_trigger 20, Ev_sdcard_read,
                Ev_tick env_free]"



section \<open>Proofs: Tajima displacement\<close>

lemma and_bit_mask: "(b AND bit_mask n \<noteq> 0) = bit b n" for b :: uint8_t
  unfolding bit_mask_def
  by (metis and_exp_eq_0_iff_not_bit push_bit_of_1)

lemma acc_if:
  "(if c then x + w else x) = x + (if c then w else 0)"
  "(if c then x - w else x) = x - (if c then w else 0)" for x w :: int16_t
  by simp_all

lemma neg_if: "(if c then - w else 0) = - (if c then w else 0)" for w :: int
  by simp

lemma get_x_word: "get_x b2 b1 b0 = word_of_int (table_sum x_rules b2 b1 b0)"
  unfolding get_x_def table_sum_def x_rules_def rule_value_def and_bit_mask Let_def acc_if
  by (simp add: neg_if if_distrib [of word_of_int] algebra_simps split del: if_split cong: if_cong)

lemma get_y_word: "get_y b2 b1 b0 = word_of_int (table_sum y_rules b2 b1 b0)"
  unfolding get_y_def table_sum_def y_rules_def rule_value_def and_bit_mask Let_def acc_if
  by (simp add: neg_if if_distrib [of word_of_int] algebra_simps split del: if_split cong: if_cong)

lemma table_sum_x_range:
  "- 121 \<le> table_sum x_rules b2 b1 b0 \<and> table_sum x_rules b2 b1 b0 \<le> 121"
  by (simp add: table_sum_def x_rules_def rule_value_def)

lemma table_sum_y_range:
  "- 121 \<le> table_sum y_rules b2 b1 b0 \<and> table_sum y_rules b2 b1 b0 \<le> 121"
  by (simp add: table_sum_def y_rules_def rule_value_def)

lemma sint_small: "- 121 \<le> k \<Longrightarrow> k \<le> 121 \<Longrightarrow> sint (word_of_int k :: int16_t) = k"
  by (simp add: sint_sbintrunc' signed_take_bit_int_eq_self)

lemma get_x_table: "sint (get_x b2 b1 b0) = table_sum x_rules b2 b1 b0"
  using table_sum_x_range [of b2 b1 b0] by (simp add: get_x_word sint_small)

lemma get_y_table: "sint (get_y b2 b1 b0) = table_sum y_rules b2 b1 b0"
  using table_sum_y_range [of b2 b1 b0] by (simp add: get_y_word sint_small)

lemma tested_bits_get_x:
  "tested_bits get_x =
     [(0, 0), (0, 1), (0, 2), (0, 3), (1, 0), (1, 1), (1, 2), (1, 3), (2, 2), (2, 3)]"
  by (simp add: tested_bits_def single_bit_def get_x_def bit_mask_def Let_def upt_conv_Cons)

lemma tested_bits_get_y:
  "tested_bits get_y =
     [(0, 4), (0, 5), (0, 6), (0, 7), (1, 4), (1, 5), (1, 6), (1, 7), (2, 4), (2, 5)]"
  by (simp add: tested_bits_def single_bit_def get_y_def bit_mask_def Let_def upt_conv_Cons)

subsection \<open>Every value of the range has a code\<close>

lemma balanced_step:
  fixes u m :: int
  assumes "- (3 * m + 1) \<le> u" "u \<le> 3 * m + 1"
  shows "\<exists>t q. - 1 \<le> t \<and> t \<le> 1 \<and> u = t + 3 * q \<and> - m \<le> q \<and> q \<le> m"
proof (intro exI conjI)
  show "u = ((u + 1) mod 3 - 1) + 3 * ((u + 1) div 3)" by presburger
  show "- 1 \<le> (u + 1) mod 3 - 1" by presburger
  show "(u + 1) mod 3 - 1 \<le> 1" by presburger
  show "- m \<le> (u + 1) div 3" using assms by presburger
  show "(u + 1) div 3 \<le> m" using assms by presburger
qed

lemma balanced_ternary:
  fixes v :: int
  assumes "- 121 \<le> v" "v \<le> 121"
  shows "\<exists>t0 t1 t2 t3 t4. \<bar>t0\<bar> \<le> 1 \<and> \<bar>t1\<bar> \<le> 1 \<and> \<bar>t2\<bar> \<le> 1 \<and> \<bar>t3\<bar> \<le> 1 \<and> \<bar>t4\<bar> \<le> 1
     \<and> v = t0 + 3 * t1 + 9 * t2 + 27 * t3 + 81 * t4"
proof -
  have "- (3 * 40 + 1) \<le> v" "v \<le> 3 * 40 + 1" using assms by simp_all
  from balanced_step [OF this]
  obtain t0 q0 where 0: "- 1 \<le> t0" "t0 \<le> 1" "v = t0 + 3 * q0" "- 40 \<le> q0" "q0 \<le> 40"
    by blast
  have "- (3 * 13 + 1) \<le> q0" "q0 \<le> 3 * 13 + 1" using 0(4,5) by simp_all
  from balanced_step [OF this]
  obtain t1 q1 where 1: "- 1 \<le> t1" "t1 \<le> 1" "q0 = t1 + 3 * q1" "- 13 \<le> q1" "q1 \<le> 13"
    by blast
  have "- (3 * 4 + 1) \<le> q1" "q1 \<le> 3 * 4 + 1" using 1(4,5) by simp_all
  from balanced_step [OF this]
  obtain t2 q2 where 2: "- 1 \<le> t2" "t2 \<le> 1" "q1 = t2 + 3 * q2" "- 4 \<le> q2" "q2 \<le> 4"
    by blast
  have "- (3 * 1 + 1) \<le> q2" "q2 \<le> 3 * 1 + 1" using 2(4,5) by simp_all
  from balanced_step [OF this]
  obtain t3 q3 where 3: "- 1 \<le> t3" "t3 \<le> 1" "q2 = t3 + 3 * q3" "- 1 \<le> q3" "q3 \<le> 1"
    by blast
  have sum: "v = t0 + 3 * t1 + 9 * t2 + 27 * t3 + 81 * q3"
    using 0(3) 1(3) 2(3) 3(3) by linarith
  have "\<bar>t0\<bar> \<le> 1" "\<bar>t1\<bar> \<le> 1" "\<bar>t2\<bar> \<le> 1" "\<bar>t3\<bar> \<le> 1" "\<bar>q3\<bar> \<le> 1"
    using 0(1,2) 1(1,2) 2(1,2) 3(1,2,4,5) by linarith+
  with sum show ?thesis by blast
qed

lemma trit_cases: "\<bar>t\<bar> \<le> 1 \<Longrightarrow> t = - 1 \<or> t = 0 \<or> t = 1" for t :: int
  by arith

lemma table_sum_x_trits:
  assumes "\<bar>t0\<bar> \<le> 1" "\<bar>t1\<bar> \<le> 1" "\<bar>t2\<bar> \<le> 1" "\<bar>t3\<bar> \<le> 1" "\<bar>t4\<bar> \<le> 1"
  shows "table_sum x_rules (trit t4 2 3) (trit t1 0 1 OR trit t3 2 3) (trit t0 0 1 OR trit t2 2 3)
          = t0 + 3 * t1 + 9 * t2 + 27 * t3 + 81 * t4"
  using assms [THEN trit_cases]
  by (elim disjE) (simp_all add: table_sum_def x_rules_def rule_value_def trit_def bit_mask_def)

lemma table_sum_y_trits:
  assumes "\<bar>t0\<bar> \<le> 1" "\<bar>t1\<bar> \<le> 1" "\<bar>t2\<bar> \<le> 1" "\<bar>t3\<bar> \<le> 1" "\<bar>t4\<bar> \<le> 1"
  shows "table_sum y_rules (trit t4 5 4) (trit t1 7 6 OR trit t3 5 4) (trit t0 7 6 OR trit t2 5 4)
          = t0 + 3 * t1 + 9 * t2 + 27 * t3 + 81 * t4"
  using assms [THEN trit_cases]
  by (elim disjE) (simp_all add: table_sum_def y_rules_def rule_value_def trit_def bit_mask_def)

lemma get_x_onto:
  assumes "- 121 \<le> v" "v \<le> 121"
  shows "\<exists>b2 b1 b0. sint (get_x b2 b1 b0) = v"
proof -
  from balanced_ternary [OF assms] obtain t0 t1 t2 t3 t4 where
    t: "\<bar>t0\<bar> \<le> 1" "\<bar>t1\<bar> \<le> 1" "\<bar>t2\<bar> \<le> 1" "\<bar>t3\<bar> \<le> 1" "\<bar>t4\<bar> \<le> 1"
    and v: "v = t0 + 3 * t1 + 9 * t2 + 27 * t3 + 81 * t4"
    by blast
  show ?thesis
    unfolding get_x_table v using table_sum_x_trits [OF t] by blast
qed

lemma get_y_onto:
  assumes "- 121 \<le> v" "v \<le> 121"
  shows "\<exists>b2 b1 b0. sint (get_y b2 b1 b0) = v"
proof -
  from balanced_ternary [OF assms] obtain t0 t1 t2 t3 t4 where
    t: "\<bar>t0\<bar> \<le> 1" "\<bar>t1\<bar> \<le> 1" "\<bar>t2\<bar> \<le> 1" "\<bar>t3\<bar> \<le> 1" "\<bar>t4\<bar> \<le> 1"
    and v: "v = t0 + 3 * t1 + 9 * t2 + 27 * t3 + 81 * t4"
    by blast
  show ?thesis
    unfolding get_y_table v using table_sum_y_trits [OF t] by blast
qed

subsection \<open>The displacement computation against the table\<close>

text \<open>
  Claim C1, as the code has it. For every 3-byte record \<open>(b0, b1, b2)\<close> the displacement
  that \<open>get_x\<close> (\<open>get_y\<close>) computes is the sum of the signed weights of the reference table
  selected by the bits of the record; each table has 10 rules (a plus and a minus bit for
  each of the weights 1, 3, 9, 27, 81), on exactly the bits the function reacts to; the
  value of each axis lies in \<open>[-121, 121]\<close>, and every value \<open>v\<close> of that range is the
  displacement of some record.
\<close>

theorem tajima_displacement_table:
  "sint (get_x b2 b1 b0) = table_sum x_rules b2 b1 b0 \<and>
   sint (get_y b2 b1 b0) = table_sum y_rules b2 b1 b0 \<and>
   length x_rules = 10 \<and> length y_rules = 10 \<and>
   set (rule_bits x_rules) = set (tested_bits get_x) \<and>
   set (rule_bits y_rules) = set (tested_bits get_y) \<and>
   set (map abs (rule_weights x_rules)) = {1, 3, 9, 27, 81} \<and>
   set (map abs (rule_weights y_rules)) = {1, 3, 9, 27, 81} \<and>
   - 121 \<le> sint (get_x b2 b1 b0) \<and> sint (get_x b2 b1 b0) \<le> 121 \<and>
   - 121 \<le> sint (get_y b2 b1 b0) \<and> sint (get_y b2 b1 b0) \<le> 121 \<and>
   (- 121 \<le> v \<and> v \<le> 121 \<longrightarrow>
      (\<exists>c2 c1 c0. sint (get_x c2 c1 c0) = v) \<and> (\<exists>c2 c1 c0. sint (get_y c2 c1 c0) = v))"
proof -
  have bits: "set (rule_bits x_rules) = set (tested_bits get_x)"
    "set (rule_bits y_rules) = set (tested_bits get_y)"
    unfolding tested_bits_get_x tested_bits_get_y
    by (auto simp: rule_bits_def x_rules_def y_rules_def)
  have weights: "set (map abs (rule_weights x_rules)) = {1, 3, 9, 27, 81}"
    "set (map abs (rule_weights y_rules)) = {1, 3, 9, 27, 81}"
    by (auto simp: rule_weights_def x_rules_def y_rules_def)
  have len: "length x_rules = 10" "length y_rules = 10"
    by (simp_all add: x_rules_def y_rules_def)
  show ?thesis
    using bits weights len get_x_onto [of v] get_y_onto [of v]
      table_sum_x_range [of b2 b1 b0] table_sum_y_range [of b2 b1 b0]
    unfolding get_x_table get_y_table by blast
qed

theorem tajima_displacement_table_witness:
  "- 121 \<le> (100 :: int) \<and> (100 :: int) \<le> 121 \<and>
   (\<exists>c2 c1 c0. sint (get_x c2 c1 c0) = 100) \<and> (\<exists>c2 c1 c0. sint (get_y c2 c1 c0) = 100) \<and>
   sint (get_x 0x04 0x05 0x09) = table_sum x_rules 0x04 0x05 0x09"
proof -
  have h: "- 121 \<le> (100 :: int) \<and> (100 :: int) \<le> 121" by simp
  from tajima_displacement_table [of "0x04" "0x05" "0x09" 100] h show ?thesis by blast
qed

text \<open>
  The claim counts 11 rules per axis. Each axis function reacts to 10 of the 24 bits of a
  record, and its table has 10 rules.
\<close>

theorem tajima_rule_count_counterexample:
  "length (tested_bits get_x) = 10 \<and> length (tested_bits get_y) = 10 \<and>
   length x_rules \<noteq> 11 \<and> length y_rules \<noteq> 11"
  by (simp add: tested_bits_get_x tested_bits_get_y x_rules_def y_rules_def)

section \<open>Proofs: files\<close>

lemma vfs_read_rest: "vfs_read n file = (take n (file_rest file), file\<lparr>file_pos := file_pos file + min (length (file_rest file)) n\<rparr>)"
  by (simp add: vfs_read_def file_rest_def Let_def)

lemma read_cmd_Cons: "file_rest file = b # bs \<Longrightarrow> read_cmd cmd file = (b, file\<lparr>file_pos := Suc (file_pos file)\<rparr>)"
  by (simp add: read_cmd_def vfs_read_rest)

lemma read_cmd_Nil: "file_rest file = [] \<Longrightarrow> read_cmd cmd file = (cmd, file)"
  by (simp add: read_cmd_def vfs_read_rest)

lemma drop_Cons_next: "drop n xs = b # bs \<Longrightarrow> drop (Suc n) xs = bs"
  by (metis drop_Suc tl_drop list.sel(3))

lemma file_rest_advance:
  "file_rest file = b # bs \<Longrightarrow> file_rest (file\<lparr>file_pos := Suc (file_pos file)\<rparr>) = bs"
  by (simp add: file_rest_def drop_Cons_next)

section \<open>Proofs: Brother decoder\<close>

lemma sint16_of_int: "- 32768 \<le> k \<Longrightarrow> k < 32768 \<Longrightarrow> sint (word_of_int k :: int16_t) = k"
  by (simp add: sint_sbintrunc' signed_take_bit_int_eq_self)

lemma ucast_woi: "(ucast (c :: uint8_t) :: int16_t) = word_of_int (uint c)"
  by simp

lemma uint8_bound: "uint (c :: uint8_t) < 256" "0 \<le> uint c"
  using uint_bounded [of c] by simp_all

lemma sint_ucast8: "sint (ucast (c :: uint8_t) :: int16_t) = uint c"
  unfolding ucast_woi using uint8_bound [of c] by (intro sint16_of_int) linarith+

lemma sint_ucast8_minus: "sint ((ucast (c :: uint8_t) :: int16_t) - 0x80) = uint c - 0x80"
proof -
  have "(ucast c :: int16_t) - 0x80 = word_of_int (uint c - 0x80)"
    by simp
  then show ?thesis using uint8_bound [of c] by (simp only: sint16_of_int) 
qed

lemma short_axis_val:
  "sint (short_axis c) = (if uint c > 0x3F then uint c - 0x80 else uint c)"
  unfolding short_axis_def Let_def sint_ucast8
  by (simp add: sint_ucast8 sint_ucast8_minus)

lemma high_bit_unset:
  fixes c :: uint8_t
  assumes "c AND 0x80 = 0"
  shows "uint c < 128"
proof -
  have "c AND 2 ^ 7 = 0" using assms by simp
  then have nb: "\<not> bit c 7" using and_exp_eq_0_iff_not_bit [of c 7] by blast
  have "uint c = take_bit (Suc 7) (uint c)"
    using uint8_bound [of c] by (simp add: take_bit_int_eq_self)
  also have "\<dots> = 2 ^ 7 * of_bool (bit (uint c) 7) + take_bit 7 (uint c)"
    by (rule take_bit_Suc_from_most)
  also have "\<dots> = take_bit 7 (uint c)"
  proof -
    have "bit (uint c) 7 = bit c 7" by (simp add: bit_uint_iff)
    with nb show ?thesis by simp
  qed
  finally have "uint c = take_bit 7 (uint c)" .
  moreover have "take_bit 7 (uint c) < 2 ^ 7" by (rule take_bit_int_less_exp)
  ultimately show ?thesis by simp
qed

lemma short_axis_spec: "sint (short_axis c) = spec_short_axis c"
  by (simp add: short_axis_val spec_short_axis_def)

lemma short_axis_rat: "(signed (short_axis c) :: rat) = of_int (spec_short_axis c)"
proof -
  have "(signed (short_axis c) :: rat) = of_int (sint (short_axis c))" by simp
  then show ?thesis by (simp only: short_axis_spec)
qed

lemma short_record_decoded:
  assumes fc: "br_first_color st = - 1"
    and c: "c AND 0x80 = 0" and d: "d AND 0x80 = 0"
    and rest: "file_rest file = c # d # bs"
  shows "brother_get_stitch cmd0 stitch file st =
     Inr (True,
          stitch\<lparr>stitch_type := Stitch_Normal,
                 stitch_target := (stitch_target stitch)
                   \<lparr>coord_x := of_int (spec_short_axis c) / 10,
                    coord_y := - (of_int (spec_short_axis d) / 10)\<rparr>\<rparr>,
          file\<lparr>file_pos := file_pos file + 2\<rparr>, st)"
proof -
  have r1: "read_cmd cmd0 file = (c, file\<lparr>file_pos := Suc (file_pos file)\<rparr>)"
    using rest by (rule read_cmd_Cons)
  have rest': "file_rest (file\<lparr>file_pos := Suc (file_pos file)\<rparr>) = d # bs"
    using rest by (rule file_rest_advance)
  have r2: "read_cmd c (file\<lparr>file_pos := Suc (file_pos file)\<rparr>) = (d, file\<lparr>file_pos := file_pos file + 2\<rparr>)"
    using read_cmd_Cons [OF rest', of c] by simp
  have cff: "c \<noteq> 0xFF" using c by auto
  show ?thesis
    unfolding brother_get_stitch_def
    by (simp add: fc r1 r2 c d cff short_axis_rat)
qed


lemma spec_short_axis_range:
  "c AND 0x80 = 0 \<Longrightarrow> - 64 \<le> spec_short_axis c \<and> spec_short_axis c \<le> 63"
proof -
  assume "c AND 0x80 = 0"
  then have lt: "uint c < 128" by (rule high_bit_unset)
  have ge: "0 \<le> uint c" by simp
  show ?thesis
  proof (cases "uint c \<le> 0x3F")
    case True
    then have "spec_short_axis c = uint c" by (simp add: spec_short_axis_def)
    with ge True show ?thesis by linarith
  next
    case False
    then have "spec_short_axis c = uint c - 0x80" by (simp add: spec_short_axis_def)
    with lt False show ?thesis by linarith
  qed
qed

text \<open>
  Claim C7. A record of the Brother decoder whose two bytes \<open>c\<close>, \<open>d\<close> have the high bit
  unset: each axis value is the byte up to \<open>0x3F\<close> and the byte minus \<open>0x80\<close> above, in
  \<open>-64..63\<close>; the stitch is a Normal stitch whose target is \<open>dx / 10\<close> and \<open>- dy / 10\<close>,
  and two bytes are consumed.
\<close>

theorem brother_short_record:
  "br_first_color st = - 1 \<and> c AND 0x80 = 0 \<and> d AND 0x80 = 0 \<and> file_rest file = c # d # bs \<longrightarrow>
     sint (short_axis c) = spec_short_axis c \<and> sint (short_axis d) = spec_short_axis d \<and>
     - 64 \<le> spec_short_axis c \<and> spec_short_axis c \<le> 63 \<and>
     - 64 \<le> spec_short_axis d \<and> spec_short_axis d \<le> 63 \<and>
     brother_get_stitch cmd0 stitch file st =
       Inr (True,
            stitch\<lparr>stitch_type := Stitch_Normal,
                   stitch_target := (stitch_target stitch)
                     \<lparr>coord_x := of_int (spec_short_axis c) / 10,
                      coord_y := - (of_int (spec_short_axis d) / 10)\<rparr>\<rparr>,
            file\<lparr>file_pos := file_pos file + 2\<rparr>, st)"
proof (intro impI, elim conjE)
  assume h: "br_first_color st = - 1" "c AND 0x80 = 0" "d AND 0x80 = 0"
    "file_rest file = c # d # bs"
  show "sint (short_axis c) = spec_short_axis c \<and> sint (short_axis d) = spec_short_axis d \<and>
     - 64 \<le> spec_short_axis c \<and> spec_short_axis c \<le> 63 \<and>
     - 64 \<le> spec_short_axis d \<and> spec_short_axis d \<le> 63 \<and>
     brother_get_stitch cmd0 stitch file st =
       Inr (True,
            stitch\<lparr>stitch_type := Stitch_Normal,
                   stitch_target := (stitch_target stitch)
                     \<lparr>coord_x := of_int (spec_short_axis c) / 10,
                      coord_y := - (of_int (spec_short_axis d) / 10)\<rparr>\<rparr>,
            file\<lparr>file_pos := file_pos file + 2\<rparr>, st)"
    using short_record_decoded [OF h] spec_short_axis_range [OF h(2)]
      spec_short_axis_range [OF h(3)] short_axis_spec [of c] short_axis_spec [of d]
    by blast
qed

text \<open>The record \<open>[0x05, 0x05]\<close>: a Normal stitch with target \<open>(0.5, -0.5)\<close>.\<close>

theorem brother_short_record_witness:
  "brother_get_stitch 0
     \<lparr>stitch_type = Stitch_Stop, stitch_color = 0,
      stitch_target = \<lparr>coord_x = 0, coord_y = 0, coord_z = 0\<rparr>\<rparr>
     \<lparr>file_data = [0x05, 0x05], file_pos = 0\<rparr>
     \<lparr>br_pec_1 = (\<lambda>i. 0), br_pec_2 = (\<lambda>i. 0), br_first_color = - 1, br_color_idx = 0\<rparr>
   = Inr (True,
          \<lparr>stitch_type = Stitch_Normal, stitch_color = 0,
           stitch_target = \<lparr>coord_x = 1 / 2, coord_y = - (1 / 2), coord_z = 0\<rparr>\<rparr>,
          \<lparr>file_data = [0x05, 0x05], file_pos = 2\<rparr>,
          \<lparr>br_pec_1 = (\<lambda>i. 0), br_pec_2 = (\<lambda>i. 0), br_first_color = - 1, br_color_idx = 0\<rparr>)"
  using brother_short_record [of
     "\<lparr>br_pec_1 = (\<lambda>i. 0), br_pec_2 = (\<lambda>i. 0), br_first_color = - 1, br_color_idx = 0\<rparr>"
     "0x05" "0x05" "\<lparr>file_data = [0x05, 0x05], file_pos = 0\<rparr>" "[]" 0
     "\<lparr>stitch_type = Stitch_Stop, stitch_color = 0,
      stitch_target = \<lparr>coord_x = 0, coord_y = 0, coord_z = 0\<rparr>\<rparr>"]
  by (simp add: file_rest_def spec_short_axis_def)

subsection \<open>Thread colours\<close>

lemma palette_thread_list_length: "length palette_thread_list = 65"
  by (simp add: palette_thread_list_def)

text \<open>
  Claim C10. The lookup of \<open>get_thread_color\<close> is inside the 65 entries of the table: an
  index of 65 or more gives the name of entry 0, \<open>Undefined\<close>, any other index the name of
  its own entry.
\<close>

theorem brother_get_thread_color_in_bounds:
  "length palette_thread_list = 65 \<and>
   (if unat color \<ge> length palette_thread_list then 0 else unat color) < length palette_thread_list \<and>
   thread_name (palette_thread_list ! 0) = ''Undefined'' \<and>
   brother_get_thread_color color =
     (if unat color \<ge> 65 then ''Undefined'' else thread_name (palette_thread_list ! unat color))"
  unfolding brother_get_thread_color_def palette_thread_list_length
  by (simp add: palette_thread_list_def mk_thread_def)

theorem brother_get_thread_color_in_bounds_witness:
  "brother_get_thread_color 200 = ''Undefined'' \<and> brother_get_thread_color 65 = ''Undefined'' \<and>
   brother_get_thread_color 64 = ''Applique'' \<and> brother_get_thread_color 5 = ''Red''"
  using brother_get_thread_color_in_bounds [of 200] brother_get_thread_color_in_bounds [of 65]
    brother_get_thread_color_in_bounds [of 64] brother_get_thread_color_in_bounds [of 5]
  by (simp add: palette_thread_list_def mk_thread_def)

section \<open>Proofs: decoding one stitch\<close>

lemma read_cmd_pos:
  "read_cmd cmd file = (cmd', file') \<Longrightarrow> file_pos file \<le> file_pos file'"
  by (auto simp: read_cmd_def vfs_read_rest)

subsection \<open>Header mismatch\<close>

lemma brother_open_mismatch:
  assumes "take 4 (file_rest file) \<noteq> [0x23, 0x50, 0x45, 0x53]"
  shows "brother_open_file file api st = (False, file\<lparr>file_pos := 0\<rparr>, api, st)"
proof -
  have "take 4 (take 12 (file_rest file)) = take 4 (file_rest file)" by simp
  with assms show ?thesis
    by (simp add: brother_open_file_def vfs_read_rest strncmp_eq_def vfs_seek_def)
qed

lemma brother_open_short:
  assumes "length (file_rest file) < 12"
  shows "brother_open_file file api st = (False, file\<lparr>file_pos := 0\<rparr>, api, st)"
  using assms by (simp add: brother_open_file_def vfs_read_rest vfs_seek_def)

lemma tajima_open_mismatch:
  assumes "take 3 (file_rest file) \<noteq> [0x4C, 0x41, 0x3A]"
  shows "tajima_open_file strcaps read_float file api st =
     Some (False, file\<lparr>file_pos := 0\<rparr>, api,
           st\<lparr>tj_buf := store_buf (take 3 (file_rest file)) (tj_buf st)\<rparr>)"
  using assms
  by (auto simp add: tajima_open_file_def vfs_read_rest strncmp_eq_def vfs_seek_def
      store_buf_def Let_def)

text \<open>
  Claim C9. A file whose first bytes are not \<open>#PES\<close> (or that has fewer than 12 bytes) makes
  \<open>brother_open_file\<close> return false with the file at offset 0 and \<open>api\<close> and the statics
  untouched; a file whose first three bytes are not \<open>LA:\<close> makes \<open>tajima_open_file\<close> return
  false with the file at offset 0 and \<open>api\<close> untouched (so neither \<open>get_stitch\<close> nor
  \<open>get_thread_color\<close> is installed). After the Brother decoder has declined a file read
  from its start, the Tajima decoder sees the same file from its start.
\<close>

theorem open_file_mismatch:
  "(take 4 (file_rest file) \<noteq> [0x23, 0x50, 0x45, 0x53] \<or> length (file_rest file) < 12 \<longrightarrow>
      brother_open_file file api bst = (False, file\<lparr>file_pos := 0\<rparr>, api, bst)) \<and>
   (take 3 (file_rest file) \<noteq> [0x4C, 0x41, 0x3A] \<longrightarrow>
      (\<exists>tst'. tajima_open_file strcaps read_float file api tst
                 = Some (False, file\<lparr>file_pos := 0\<rparr>, api, tst')
             \<and> tj_first_color tst' = tj_first_color tst))"
  using brother_open_mismatch [of "file" api bst] brother_open_short [of "file" api bst]
    tajima_open_mismatch [of "file" strcaps read_float api tst]
  by auto

theorem open_file_mismatch_witness:
  "brother_open_file \<lparr>file_data = [0x4C, 0x41, 0x3A, 0x0D], file_pos = 0\<rparr> api0 brother_statics_init
     = (False, \<lparr>file_data = [0x4C, 0x41, 0x3A, 0x0D], file_pos = 0\<rparr>, api0, brother_statics_init) \<and>
   (\<exists>tst'. tajima_open_file (\<lambda>l. l) (\<lambda>l. None)
               \<lparr>file_data = [0x23, 0x50, 0x45, 0x53], file_pos = 0\<rparr> api0 tajima_statics_init
             = Some (False, \<lparr>file_data = [0x23, 0x50, 0x45, 0x53], file_pos = 0\<rparr>, api0, tst'))"
  using open_file_mismatch [of "\<lparr>file_data = [0x4C, 0x41, 0x3A, 0x0D], file_pos = 0\<rparr>"
      api0 brother_statics_init "\<lambda>l. l" "\<lambda>l. None" tajima_statics_init]
    open_file_mismatch [of "\<lparr>file_data = [0x23, 0x50, 0x45, 0x53], file_pos = 0\<rparr>"
      api0 brother_statics_init "\<lambda>l. l" "\<lambda>l. None" tajima_statics_init]
  by (auto simp: file_rest_def)

subsection \<open>End of pattern\<close>

lemma brother_end:
  assumes "br_first_color st = - 1" "file_rest file = 0xFF # bs"
  shows "brother_get_stitch cmd0 stitch file st =
      Inr (False, stitch\<lparr>stitch_type := Stitch_Normal\<rparr>,
           file\<lparr>file_pos := Suc (file_pos file)\<rparr>, st)"
  using assms by (simp add: brother_get_stitch_def read_cmd_Cons)

lemma tajima_end:
  assumes "tj_first_color st = - 1" "file_rest file = b0 # b1 # b2 # bs" "b2 AND 0xF3 = 0xF3"
  shows "tajima_get_stitch stitch file st =
     (False, stitch, file\<lparr>file_pos := file_pos file + 3\<rparr>, st)"
  using assms by (simp add: tajima_get_stitch_def vfs_read_rest)

lemma tajima_short:
  assumes "tj_first_color st = - 1" "length (file_rest file) < 3"
  shows "tajima_get_stitch stitch file st =
     (False, stitch, file\<lparr>file_pos := file_pos file + length (file_rest file)\<rparr>, st)"
  using assms by (simp add: tajima_get_stitch_def vfs_read_rest min_def)

text \<open>
  Claim C6. With no synthetic first stitch pending, \<open>get_stitch\<close> of the Brother decoder
  returns false on a record that starts with \<open>0xFF\<close>; \<open>get_stitch\<close> of the Tajima decoder
  returns false on a record whose third byte has all bits of \<open>0b11110011\<close> set, and when
  fewer than 3 bytes remain; the Tajima slot is left as it was.
\<close>

theorem end_of_pattern:
  "(br_first_color bst = - 1 \<and> file_rest file = 0xFF # bs \<longrightarrow>
      brother_get_stitch cmd0 stitch file bst =
        Inr (False, stitch\<lparr>stitch_type := Stitch_Normal\<rparr>,
             file\<lparr>file_pos := Suc (file_pos file)\<rparr>, bst)) \<and>
   (tj_first_color tst = - 1 \<and> file_rest file = b0 # b1 # b2 # bs \<and> b2 AND 0xF3 = 0xF3 \<longrightarrow>
      tajima_get_stitch stitch file tst =
        (False, stitch, file\<lparr>file_pos := file_pos file + 3\<rparr>, tst)) \<and>
   (tj_first_color tst = - 1 \<and> length (file_rest file) < 3 \<longrightarrow>
      tajima_get_stitch stitch file tst =
        (False, stitch, file\<lparr>file_pos := file_pos file + length (file_rest file)\<rparr>, tst))"
  using brother_end [of bst "file" bs cmd0 stitch] tajima_end [of tst "file" b0 b1 b2 bs stitch]
    tajima_short [of tst "file" stitch]
  by blast

theorem end_of_pattern_witness:
  "brother_get_stitch 0 slot0 \<lparr>file_data = [0xFF], file_pos = 0\<rparr> brother_statics_init
     = Inr (False, slot0\<lparr>stitch_type := Stitch_Normal\<rparr>, \<lparr>file_data = [0xFF], file_pos = 1\<rparr>,
            brother_statics_init) \<and>
   tajima_get_stitch slot0 \<lparr>file_data = [0x00, 0x00, 0xF3], file_pos = 0\<rparr> tajima_statics_init
     = (False, slot0, \<lparr>file_data = [0x00, 0x00, 0xF3], file_pos = 3\<rparr>, tajima_statics_init) \<and>
   tajima_get_stitch slot0 \<lparr>file_data = [0x01, 0x02], file_pos = 0\<rparr> tajima_statics_init
     = (False, slot0, \<lparr>file_data = [0x01, 0x02], file_pos = 2\<rparr>, tajima_statics_init)"
  using end_of_pattern [of brother_statics_init "\<lparr>file_data = [0xFF], file_pos = 0\<rparr>" "[]"
      0 slot0 tajima_statics_init 0 0 0]
    end_of_pattern [of brother_statics_init "\<lparr>file_data = [0x00, 0x00, 0xF3], file_pos = 0\<rparr>" "[]"
      0 slot0 tajima_statics_init "0x00" "0x00" "0xF3"]
    end_of_pattern [of brother_statics_init "\<lparr>file_data = [0x01, 0x02], file_pos = 0\<rparr>" "[]"
      0 slot0 tajima_statics_init 0 0 0]
  by (simp add: file_rest_def brother_statics_init_def tajima_statics_init_def)

subsection \<open>The first stitch after an open\<close>

lemma brother_open_first:
  assumes "brother_open_file file api st = (True, file', api', st')"
  shows "brother_get_stitch cmd0 stitch file' st' =
     Inr (True,
          stitch\<lparr>stitch_type := Stitch_Stop, stitch_color := br_pec_1 st' 49,
                 stitch_target := (stitch_target stitch)\<lparr>coord_x := 0, coord_y := 0\<rparr>\<rparr>,
          file', st'\<lparr>br_first_color := - 1\<rparr>)
     \<and> palette_index (br_pec_1 st') 0 = Some (br_pec_1 st' 49)"
proof -
  have fc: "br_first_color st' = uint (br_pec_1 st' 49)"
    using assms
    by (auto simp: brother_open_file_def Let_def split: prod.splits if_splits)
  have "0 \<le> uint (br_pec_1 st' 49)" by simp
  then have "br_first_color st' \<noteq> - 1" unfolding fc by linarith
  then show ?thesis
    by (simp add: brother_get_stitch_def fc palette_index_def)
qed

lemma brother_first_color_stays:
  assumes "br_first_color st = - 1" "brother_get_stitch cmd0 stitch file st = Inr (ok, stitch', file', st')"
  shows "br_first_color st' = - 1"
  using assms
  by (auto simp: brother_get_stitch_def Let_def split: prod.splits if_splits option.splits)

lemma brother_reads:
  assumes "br_first_color st = - 1" "brother_get_stitch cmd0 stitch file st = Inr (ok, stitch', file', st')"
     "file_rest file \<noteq> []"
  shows "file_pos file < file_pos file'"
proof -
  obtain b bs where rest: "file_rest file = b # bs" using assms(3) by (cases "file_rest file") auto
  show ?thesis
    using assms(2) unfolding brother_get_stitch_def
    by (auto simp: assms(1) read_cmd_Cons [OF rest] Let_def
        split: prod.splits if_splits option.splits dest!: read_cmd_pos)
qed

lemma tajima_open_ok:
  assumes "tajima_open_file strcaps read_float file api st = Some (True, file', api', st')"
  shows "tj_first_color st' = tj_first_color st \<and> file_pos file' = 512"
  using assms
  by (auto simp: tajima_open_file_def Let_def vfs_seek_def split: prod.splits if_splits option.splits)

lemma tajima_reads:
  assumes "tj_first_color st = - 1"
  shows "snd (snd (tajima_get_stitch stitch file st)) =
           (file\<lparr>file_pos := file_pos file + min (length (file_rest file)) 3\<rparr>, st)"
  using assms
  by (simp add: tajima_get_stitch_def vfs_read_rest Let_def split: prod.splits)

lemma meta_loop_stop:
  "\<not> fst (read_meta file) \<Longrightarrow>
     meta_loop strcaps read_float file api = Some (snd (snd (snd (read_meta file))), api)"
  by (subst meta_loop.simps) (auto split: prod.splits)

text \<open>
  Claim C4, as the code has it. After a successful \<open>brother_open_file\<close> the first
  \<open>get_stitch\<close> returns a Stop stitch with the first palette index as colour and zero
  displacement, and leaves the file where the open left it; from then on \<open>first_color\<close> stays
  \<open>-1\<close> and every call reads from the stream. \<open>tajima_open_file\<close> does not set
  \<open>first_color\<close>: with the value \<open>-1\<close> the static starts with, it is still \<open>-1\<close> after a
  successful open, the file is at offset 512, and already the first \<open>get_stitch\<close> reads a
  record there.
\<close>

theorem first_stitch_after_open:
  "(brother_open_file bfile api bst = (True, bfile', api', bst') \<longrightarrow>
      brother_get_stitch cmd stitch bfile' bst' =
        Inr (True,
             stitch\<lparr>stitch_type := Stitch_Stop, stitch_color := br_pec_1 bst' 49,
                    stitch_target := (stitch_target stitch)\<lparr>coord_x := 0, coord_y := 0\<rparr>\<rparr>,
             bfile', bst'\<lparr>br_first_color := - 1\<rparr>) \<and>
      palette_index (br_pec_1 bst') 0 = Some (br_pec_1 bst' 49)) \<and>
   (br_first_color st = - 1 \<and>
      brother_get_stitch cmdb stitchb fileb st = Inr (ok, stitchc, filec, stc) \<longrightarrow>
      br_first_color stc = - 1 \<and> (file_rest fileb \<noteq> [] \<longrightarrow> file_pos fileb < file_pos filec)) \<and>
   (tj_first_color tst = - 1 \<and>
      tajima_open_file strcaps read_float tfile tapi tst = Some (True, tfile', tapi', tst') \<longrightarrow>
      tj_first_color tst' = - 1 \<and> file_pos tfile' = 512 \<and>
      snd (snd (tajima_get_stitch stitch tfile' tst')) =
        (tfile'\<lparr>file_pos := 512 + min (length (file_rest tfile')) 3\<rparr>, tst'))"
proof (intro conjI impI)
  assume h: "brother_open_file bfile api bst = (True, bfile', api', bst')"
  from brother_open_first [OF h, of cmd stitch]
  show "brother_get_stitch cmd stitch bfile' bst' =
        Inr (True,
             stitch\<lparr>stitch_type := Stitch_Stop, stitch_color := br_pec_1 bst' 49,
                    stitch_target := (stitch_target stitch)\<lparr>coord_x := 0, coord_y := 0\<rparr>\<rparr>,
             bfile', bst'\<lparr>br_first_color := - 1\<rparr>)"
    and "palette_index (br_pec_1 bst') 0 = Some (br_pec_1 bst' 49)"
    by blast+
next
  assume h: "br_first_color st = - 1 \<and>
      brother_get_stitch cmdb stitchb fileb st = Inr (ok, stitchc, filec, stc)"
  then show "br_first_color stc = - 1" using brother_first_color_stays by blast
  assume "file_rest fileb \<noteq> []"
  with h show "file_pos fileb < file_pos filec" using brother_reads by blast
next
  assume h: "tj_first_color tst = - 1 \<and>
      tajima_open_file strcaps read_float tfile tapi tst = Some (True, tfile', tapi', tst')"
  then have a: "tj_first_color tst' = - 1" "file_pos tfile' = 512"
    using tajima_open_ok [of strcaps read_float tfile tapi tst tfile' tapi' tst'] by simp_all
  show "tj_first_color tst' = - 1" "file_pos tfile' = 512" by (rule a)+
  show "snd (snd (tajima_get_stitch stitch tfile' tst')) =
        (tfile'\<lparr>file_pos := 512 + min (length (file_rest tfile')) 3\<rparr>, tst')"
    using tajima_reads [OF a(1), of stitch tfile'] a(2) by simp
qed

lemma pes_open:
  "fst (brother_open_file pes_file api0 brother_statics_init) = True"
  by (simp add: brother_open_file_def vfs_read_def pes_file_def strncmp_eq_def Let_def split: prod.splits)

lemma pes_open_file:
  "fst (snd (brother_open_file pes_file api0 brother_statics_init)) = pes_file\<lparr>file_pos := 560\<rparr>"
  by (simp add: brother_open_file_def vfs_read_def vfs_seek_def pec_offset_def pes_file_def strncmp_eq_def Let_def split: prod.splits)

lemma pes_open_color:
  "br_pec_1 (snd (snd (snd (brother_open_file pes_file api0 brother_statics_init)))) 49 = 7"
  by (simp add: brother_open_file_def vfs_read_def vfs_seek_def pec_offset_def pes_file_def strncmp_eq_def Let_def fill_buf_def nth_append split: prod.splits)


lemma dst_open:
  "tajima_open_file (\<lambda>l. l) (\<lambda>l. None) dst_file api0 tajima_statics_init =
     Some (True, dst_file\<lparr>file_pos := 512\<rparr>,
           api0\<lparr>api_name := Name_tajima_buf, api_get_stitch := Some Tajima,
                api_get_thread_color := Some Tajima\<rparr>,
           tajima_statics_init\<lparr>tj_buf := 0 # 0x41 # 0x3A # replicate 18 0\<rparr>)"
  by (simp add: tajima_open_file_def vfs_read_def dst_file_def store_buf_def strncmp_eq_def
      tajima_statics_init_def read_meta_def meta_written_def meta_loop_stop vfs_seek_def)

lemma short_55:
  "brother_get_stitch 0 slot0 \<lparr>file_data = [0x05, 0x05], file_pos = 0\<rparr> brother_statics_init
    = Inr (True,
        slot0\<lparr>stitch_type := Stitch_Normal,
              stitch_target := \<lparr>coord_x = 1 / 2, coord_y = - (1 / 2), coord_z = 0\<rparr>\<rparr>,
        \<lparr>file_data = [0x05, 0x05], file_pos = 2\<rparr>, brother_statics_init)"
  by (simp add: brother_get_stitch_def read_cmd_def vfs_read_def brother_statics_init_def
      slot0_def short_axis_def Let_def)

theorem first_stitch_after_open_witness:
  "(case brother_open_file pes_file api0 brother_statics_init of
      (ok, f, a, st) \<Rightarrow>
        ok \<and> f = pes_file\<lparr>file_pos := 560\<rparr> \<and>
        brother_get_stitch 0 slot0 f st =
          Inr (True,
               slot0\<lparr>stitch_type := Stitch_Stop, stitch_color := 7\<rparr>,
               f, st\<lparr>br_first_color := - 1\<rparr>)) \<and>
   (0 :: nat) < 2 \<and>
   tj_first_color (tajima_statics_init\<lparr>tj_buf := 0 # 0x41 # 0x3A # replicate 18 0\<rparr>) = - 1"
proof -
  define r where "r = brother_open_file pes_file api0 brother_statics_init"
  have r: "r = (True, fst (snd r), fst (snd (snd r)), snd (snd (snd r)))"
    using pes_open unfolding r_def by (metis prod.collapse)
  have b: "br_first_color brother_statics_init = - 1 \<and>
    brother_get_stitch 0 slot0 \<lparr>file_data = [0x05, 0x05], file_pos = 0\<rparr> brother_statics_init
    = Inr (True,
        slot0\<lparr>stitch_type := Stitch_Normal,
              stitch_target := \<lparr>coord_x = 1 / 2, coord_y = - (1 / 2), coord_z = 0\<rparr>\<rparr>,
        \<lparr>file_data = [0x05, 0x05], file_pos = 2\<rparr>, brother_statics_init)"
    using short_55 by (simp add: brother_statics_init_def)
  have t: "tj_first_color tajima_statics_init = - 1 \<and>
     tajima_open_file (\<lambda>l. l) (\<lambda>l. None) dst_file api0 tajima_statics_init =
     Some (True, dst_file\<lparr>file_pos := 512\<rparr>,
           api0\<lparr>api_name := Name_tajima_buf, api_get_stitch := Some Tajima,
                api_get_thread_color := Some Tajima\<rparr>,
           tajima_statics_init\<lparr>tj_buf := 0 # 0x41 # 0x3A # replicate 18 0\<rparr>)"
    using dst_open by (simp add: tajima_statics_init_def)
  note inst = first_stitch_after_open [where bfile = pes_file and api = api0
      and bst = brother_statics_init and bfile' = "fst (snd r)" and api' = "fst (snd (snd r))"
      and bst' = "snd (snd (snd r))" and cmd = 0 and stitch = slot0
      and st = brother_statics_init and cmdb = 0 and stitchb = slot0
      and fileb = "\<lparr>file_data = [0x05, 0x05], file_pos = 0\<rparr>" and ok = True
      and stitchc = "slot0\<lparr>stitch_type := Stitch_Normal,
              stitch_target := \<lparr>coord_x = 1 / 2, coord_y = - (1 / 2), coord_z = 0\<rparr>\<rparr>"
      and filec = "\<lparr>file_data = [0x05, 0x05], file_pos = 2\<rparr>"
      and stc = brother_statics_init
      and tst = tajima_statics_init and strcaps = "\<lambda>l. l" and read_float = "\<lambda>l. None"
      and tfile = dst_file and tapi = api0 and tfile' = "dst_file\<lparr>file_pos := 512\<rparr>"
      and tapi' = "api0\<lparr>api_name := Name_tajima_buf, api_get_stitch := Some Tajima,
                api_get_thread_color := Some Tajima\<rparr>"
      and tst' = "tajima_statics_init\<lparr>tj_buf := 0 # 0x41 # 0x3A # replicate 18 0\<rparr>"]
  have 1: "brother_get_stitch 0 slot0 (fst (snd r)) (snd (snd (snd r))) =
        Inr (True,
             slot0\<lparr>stitch_type := Stitch_Stop, stitch_color := br_pec_1 (snd (snd (snd r))) 49,
                    stitch_target := (stitch_target slot0)\<lparr>coord_x := 0, coord_y := 0\<rparr>\<rparr>,
             fst (snd r), (snd (snd (snd r)))\<lparr>br_first_color := - 1\<rparr>)"
    and 3: "tj_first_color (tajima_statics_init\<lparr>tj_buf := 0 # 0x41 # 0x3A # replicate 18 0\<rparr>) = - 1"
    using inst r b t unfolding r_def [symmetric] by blast+
  have 2: "(0 :: nat) < 2" using inst b by (simp add: file_rest_def)
  have c: "br_pec_1 (snd (snd (snd r))) 49 = 7" unfolding r_def by (rule pes_open_color)
  have f: "fst (snd r) = pes_file\<lparr>file_pos := 560\<rparr>" unfolding r_def by (rule pes_open_file)
  have s: "slot0\<lparr>stitch_type := Stitch_Stop, stitch_color := 7,
                    stitch_target := (stitch_target slot0)\<lparr>coord_x := 0, coord_y := 0\<rparr>\<rparr>
         = slot0\<lparr>stitch_type := Stitch_Stop, stitch_color := 7\<rparr>"
    by (simp add: slot0_def)
  show ?thesis
    unfolding r_def [symmetric]
    apply (subst r)
    using 1 2 3 c f s by (simp add: case_prod_beta)
qed


text \<open>
  The claim fails for the Tajima decoder: after a successful open of \<open>dst_file\<close> the first
  \<open>get_stitch\<close> returns the Normal stitch of the first record of the stream, not a Stop.
\<close>

theorem tajima_first_stitch_counterexample:
  "tajima_open_file (\<lambda>l. l) (\<lambda>l. None) dst_file api0 tajima_statics_init =
     Some (True, dst_file\<lparr>file_pos := 512\<rparr>,
           api0\<lparr>api_name := Name_tajima_buf, api_get_stitch := Some Tajima,
                api_get_thread_color := Some Tajima\<rparr>,
           tajima_statics_init\<lparr>tj_buf := 0 # 0x41 # 0x3A # replicate 18 0\<rparr>) \<and>
   tajima_get_stitch slot0 (dst_file\<lparr>file_pos := 512\<rparr>)
       (tajima_statics_init\<lparr>tj_buf := 0 # 0x41 # 0x3A # replicate 18 0\<rparr>) =
     (True,
      slot0\<lparr>stitch_type := Stitch_Normal,
            stitch_target := \<lparr>coord_x = 1 / 10, coord_y = 0, coord_z = 0\<rparr>\<rparr>,
      dst_file\<lparr>file_pos := 515\<rparr>,
      tajima_statics_init\<lparr>tj_buf := 0 # 0x41 # 0x3A # replicate 18 0\<rparr>)"
  using dst_open
  by (simp add: tajima_get_stitch_def vfs_read_def dst_file_def slot0_def get_x_def get_y_def
      bit_mask_def Let_def tajima_statics_init_def)

subsection \<open>The sequin toggle of the Tajima decoder\<close>

text \<open>
  \<open>get_stitch\<close> never produces a sequin eject: the only type it can leave in the slot besides
  Stop, Jump and Normal is the one the slot had.
\<close>

lemma tajima_never_sequin:
  assumes "tajima_get_stitch stitch file st = (ok, stitch', file', st')"
    "stitch_type stitch' = Stitch_SequinEject"
  shows "stitch_type stitch = Stitch_SequinEject"
  using assms
  by (auto simp: tajima_get_stitch_def Let_def split: prod.splits if_splits)

text \<open>
  Claim C5 on the stream \<open>00 00 43 00 00 83\<close>. The first record matches the sequin mask:
  \<open>get_stitch\<close> returns true and leaves the type of the slot as it was. The second record
  matches the jump mask: it decodes as Jump, not as SequinEject, because the toggle \<open>sm\<close> is a
  local that every call initialises to false.
\<close>

theorem tajima_sequin_toggle_not_kept:
  "tajima_get_stitch slot0 seq_file tajima_statics_init =
     (True, slot0, seq_file\<lparr>file_pos := 3\<rparr>, tajima_statics_init) \<and>
   tajima_get_stitch slot0 (seq_file\<lparr>file_pos := 3\<rparr>) tajima_statics_init =
     (True, slot0\<lparr>stitch_type := Stitch_Jump\<rparr>, seq_file\<lparr>file_pos := 6\<rparr>,
      tajima_statics_init)"
  by (simp add: tajima_get_stitch_def vfs_read_def seq_file_def slot0_def get_x_def get_y_def
      bit_mask_def Let_def tajima_statics_init_def)

section \<open>Proofs: the stitch queue\<close>

text \<open>An index below the size of the queue is one of eight values.\<close>

lemma lt8_cases: "n < 8 \<Longrightarrow> n \<in> set [0..<8]"
  by simp

lemma index_cases:
  assumes "n \<in> set [0..<8]"
  obtains "n = 0" | "n = 1" | "n = 2" | "n = 3" | "n = 4" | "n = 5" | "n = 6" | "n = 7"
  using assms by (auto simp: upt_conv_Cons)

lemma queue_len_le: "queue_len q \<le> 7"
proof -
  have "queue_len q < 8" by (simp add: queue_len_def STITCH_QUEUE_SIZE_def)
  then show ?thesis by simp
qed

lemma ring_len_0: "h < 8 \<Longrightarrow> t < 8 \<Longrightarrow> ((h + 8 - t) mod 8 = 0) = (h = t)" for h t :: nat
  by (drule lt8_cases [of h], drule lt8_cases [of t]) (elim index_cases; simp)

lemma ring_push: "h < 8 \<Longrightarrow> t < 8 \<Longrightarrow> (h + 1) mod 8 \<noteq> t \<Longrightarrow>
     ((h + 1) mod 8 + 8 - t) mod 8 = Suc ((h + 8 - t) mod 8)" for h t :: nat
  by (drule lt8_cases [of h], drule lt8_cases [of t]) (elim index_cases; simp)

lemma ring_pop: "h < 8 \<Longrightarrow> t < 8 \<Longrightarrow> h \<noteq> t \<Longrightarrow>
     Suc ((h + 8 - (t + 1) mod 8) mod 8) = (h + 8 - t) mod 8" for h t :: nat
  by (drule lt8_cases [of h], drule lt8_cases [of t]) (elim index_cases; simp)

lemma ring_last: "h < 8 \<Longrightarrow> t < 8 \<Longrightarrow> (t + (h + 8 - t) mod 8) mod 8 = h" for h t :: nat
  by (drule lt8_cases [of h], drule lt8_cases [of t]) (elim index_cases; simp)

lemma ring_idx: "h < 8 \<Longrightarrow> t < 8 \<Longrightarrow> i < (h + 8 - t) mod 8 \<Longrightarrow> (t + i) mod 8 \<noteq> h" for h t i :: nat
  by (drule lt8_cases [of h], drule lt8_cases [of t]) (elim index_cases; simp; presburger)


lemma ring_succ_ne: "h < 8 \<Longrightarrow> (h + 1) mod 8 \<noteq> h" for h :: nat
  by (drule lt8_cases [of h]) (elim index_cases; simp)

lemma ring_full: "h < 8 \<Longrightarrow> t < 8 \<Longrightarrow> ((h + 1) mod 8 = t) = ((h + 8 - t) mod 8 = 7)" for h t :: nat
  by (drule lt8_cases [of h], drule lt8_cases [of t]) (elim index_cases; simp)

lemma queued_length: "length (queued q) = queue_len q"
  by (simp add: queued_def)

lemma queued_empty: "queue_ok q \<Longrightarrow> (queued q = []) = (queue_head q = queue_tail q)"
  using ring_len_0 [of "queue_head q" "queue_tail q"]
  by (simp add: queued_def queue_len_def queue_ok_def STITCH_QUEUE_SIZE_def)

lemma queued_write_head:
  assumes "queue_ok q"
  shows "queued (q\<lparr>queue_stitch := (queue_stitch q)(queue_head q := x)\<rparr>) = queued q"
  using assms ring_idx [of "queue_head q" "queue_tail q"]
  by (simp add: queued_def queue_len_def queue_ok_def STITCH_QUEUE_SIZE_def)

lemma queued_push:
  assumes "queue_ok q" "(queue_head q + 1) mod 8 \<noteq> queue_tail q"
  shows "queued (q\<lparr>queue_stitch := (queue_stitch q)(queue_head q := x),
                   queue_head := (queue_head q + 1) mod 8\<rparr>) = queued q @ [x]"
proof -
  have h: "queue_head q < 8" and t: "queue_tail q < 8"
    using assms(1) by (simp_all add: queue_ok_def STITCH_QUEUE_SIZE_def)
  have idx: "\<And>i. i < (queue_head q + 8 - queue_tail q) mod 8 \<Longrightarrow> (queue_tail q + i) mod 8 \<noteq> queue_head q"
    using ring_idx [OF h t] by blast
  show ?thesis
    using ring_push [OF h t] assms(2) ring_last [OF h t] idx
    by (simp add: queued_def queue_len_def STITCH_QUEUE_SIZE_def)
qed

lemma queued_pop:
  assumes "queue_ok q" "queue_head q \<noteq> queue_tail q"
  shows "queued q = queue_stitch q (queue_tail q) # queued (q\<lparr>queue_tail := (queue_tail q + 1) mod 8\<rparr>)"
proof -
  have h: "queue_head q < 8" and t: "queue_tail q < 8"
    using assms(1) by (simp_all add: queue_ok_def STITCH_QUEUE_SIZE_def)
  define n where "n = (queue_head q + 8 - Suc (queue_tail q) mod 8) mod 8"
  have len: "(queue_head q + 8 - queue_tail q) mod 8 = Suc n"
    using ring_pop [OF h t assms(2)] by (simp add: n_def)
  have shift: "\<And>i. (Suc (queue_tail q) mod 8 + i) mod 8 = Suc (queue_tail q + i) mod 8"
    by (simp add: mod_add_left_eq)
  have "[0..<Suc n] = 0 # map Suc [0..<n]"
    by (simp add: upt_conv_Cons map_Suc_upt del: upt_Suc)
  then show ?thesis
    using t
    by (simp add: queued_def queue_len_def STITCH_QUEUE_SIZE_def len n_def [symmetric] shift comp_def
        del: upt_Suc)
qed


lemma sdcard_read_idle:
  "job_enqueued (sys_job s) \<or>
     (queue_head (job_queue (sys_job s)) + 1) mod STITCH_QUEUE_SIZE = queue_tail (job_queue (sys_job s))
   \<Longrightarrow> sdcard_read get_stitch s = s"
  by (auto simp: sdcard_read_def Let_def)

lemma sdcard_read_push:
  assumes "\<not> job_enqueued (sys_job s)"
    "(queue_head (job_queue (sys_job s)) + 1) mod STITCH_QUEUE_SIZE \<noteq> queue_tail (job_queue (sys_job s))"
    "get_stitch (queue_stitch (job_queue (sys_job s)) (queue_head (job_queue (sys_job s)))) (sys_decoder s)
       = (True, stitch, d)"
  shows "sdcard_read get_stitch s =
     s\<lparr>sys_decoder := d,
       sys_job := (sys_job s)
         \<lparr>job_queue := (job_queue (sys_job s))
             \<lparr>queue_stitch := (queue_stitch (job_queue (sys_job s)))
                  (queue_head (job_queue (sys_job s)) := stitch),
              queue_head := (queue_head (job_queue (sys_job s)) + 1) mod STITCH_QUEUE_SIZE\<rparr>,
          job_enqueued := False,
          job_programmed := count_programmed (stitch_type stitch) (job_programmed (sys_job s))\<rparr>\<rparr>"
  using assms by (simp add: sdcard_read_def Let_def job_upd_def)

lemma sdcard_read_end:
  assumes "\<not> job_enqueued (sys_job s)"
    "(queue_head (job_queue (sys_job s)) + 1) mod STITCH_QUEUE_SIZE \<noteq> queue_tail (job_queue (sys_job s))"
    "get_stitch (queue_stitch (job_queue (sys_job s)) (queue_head (job_queue (sys_job s)))) (sys_decoder s)
       = (False, stitch, d)"
  shows "sdcard_read get_stitch s =
     s\<lparr>sys_decoder := d,
       sys_job := (sys_job s)
         \<lparr>job_queue := (job_queue (sys_job s))
             \<lparr>queue_stitch := (queue_stitch (job_queue (sys_job s)))
                  (queue_head (job_queue (sys_job s)) := stitch)\<rparr>,
          job_enqueued := True\<rparr>\<rparr>"
  using assms by (simp add: sdcard_read_def Let_def job_upd_def)

lemma sdcard_read_queue:
  assumes ok: "queue_ok (job_queue (sys_job s))"
  shows "queue_tail (job_queue (sys_job (sdcard_read get_stitch s))) = queue_tail (job_queue (sys_job s))
    \<and> queue_ok (job_queue (sys_job (sdcard_read get_stitch s)))
    \<and> (queue_head (job_queue (sys_job (sdcard_read get_stitch s))) \<noteq> queue_head (job_queue (sys_job s)) \<longrightarrow>
         (queue_head (job_queue (sys_job s)) + 1) mod STITCH_QUEUE_SIZE \<noteq> queue_tail (job_queue (sys_job s))
         \<and> queue_head (job_queue (sys_job (sdcard_read get_stitch s)))
              = (queue_head (job_queue (sys_job s)) + 1) mod STITCH_QUEUE_SIZE
         \<and> queued (job_queue (sys_job (sdcard_read get_stitch s)))
              = queued (job_queue (sys_job s))
                @ [queue_stitch (job_queue (sys_job (sdcard_read get_stitch s))) (queue_head (job_queue (sys_job s)))])
    \<and> (queue_head (job_queue (sys_job (sdcard_read get_stitch s))) = queue_head (job_queue (sys_job s)) \<longrightarrow>
         queued (job_queue (sys_job (sdcard_read get_stitch s))) = queued (job_queue (sys_job s)))"
proof (cases "job_enqueued (sys_job s) \<or>
     (queue_head (job_queue (sys_job s)) + 1) mod STITCH_QUEUE_SIZE = queue_tail (job_queue (sys_job s))")
  case True
  then show ?thesis using ok by (simp add: sdcard_read_idle)
next
  case False
  obtain r stitch d where g: "get_stitch (queue_stitch (job_queue (sys_job s)) (queue_head (job_queue (sys_job s)))) (sys_decoder s)
       = (r, stitch, d)" by (metis prod_cases3)
  show ?thesis
  proof (cases r)
    case True
    have ne: "(queue_head (job_queue (sys_job s)) + 1) mod 8 \<noteq> queue_tail (job_queue (sys_job s))"
      using False by (simp add: STITCH_QUEUE_SIZE_def)
    have lt: "(queue_head (job_queue (sys_job s)) + 1) mod 8 < 8" by simp
    have sn: "(queue_head (job_queue (sys_job s)) + 1) mod 8 \<noteq> queue_head (job_queue (sys_job s))"
      using ok by (intro ring_succ_ne) (simp add: queue_ok_def STITCH_QUEUE_SIZE_def)
    show ?thesis
      using False g True ok queued_push [OF ok ne, of stitch] lt sn
      by (simp add: sdcard_read_push [where stitch = stitch and d = d] queue_ok_def STITCH_QUEUE_SIZE_def
          del: One_nat_def)
  next
    case r: False
    show ?thesis
      using False g r ok queued_write_head [OF ok, of stitch]
      by (simp add: sdcard_read_end [where stitch = stitch and d = d] queue_ok_def)
  qed
qed


section \<open>Proofs: the operations on the job\<close>

lemma emit_fields [simp]:
  "sys_job (emit es s) = sys_job s" "sys_busy (emit es s) = sys_busy s"
  "sys_tasks (emit es s) = sys_tasks s" "sys_running (emit es s) = sys_running s"
  "sys_decoder (emit es s) = sys_decoder s" "sys_active_stream (emit es s) = sys_active_stream s"
  "sys_thread_trim (emit es s) = sys_thread_trim s" "sys_thread_change (emit es s) = sys_thread_change s"
  "sys_last_ms (emit es s) = sys_last_ms s"
  "sys_trace (emit es s) = sys_trace s @ es"
  by (simp_all add: emit_def)

lemma job_upd_fields [simp]:
  "sys_job (job_upd f s) = f (sys_job s)" "sys_busy (job_upd f s) = sys_busy s"
  "sys_tasks (job_upd f s) = sys_tasks s" "sys_running (job_upd f s) = sys_running s"
  "sys_decoder (job_upd f s) = sys_decoder s" "sys_active_stream (job_upd f s) = sys_active_stream s"
  "sys_thread_trim (job_upd f s) = sys_thread_trim s" "sys_thread_change (job_upd f s) = sys_thread_change s"
  "sys_last_ms (job_upd f s) = sys_last_ms s"
  "sys_trace (job_upd f s) = sys_trace s"
  by (simp_all add: job_upd_def)

lemma spindle_control_fields [simp]:
  "sys_job (spindle_control cfg on s) = (sys_job s)\<lparr>job_spindle_on := on\<rparr>"
  "sys_busy (spindle_control cfg on s) = sys_busy s"
  "sys_tasks (spindle_control cfg on s) = sys_tasks s"
  "sys_running (spindle_control cfg on s) = sys_running s"
  "sys_decoder (spindle_control cfg on s) = sys_decoder s"
  "sys_active_stream (spindle_control cfg on s) = sys_active_stream s"
  "sys_thread_trim (spindle_control cfg on s) = sys_thread_trim s"
  "sys_thread_change (spindle_control cfg on s) = sys_thread_change s"
  "sys_last_ms (spindle_control cfg on s) = sys_last_ms s"
  "sys_trace (spindle_control cfg on s) =
     sys_trace s @ (if job_spindle_on (sys_job s) \<noteq> on \<and> cfg_sync_mode cfg then [Spindle_set_state on] else [])"
  by (auto simp: spindle_control_def Let_def)

lemma jump_out_fields [simp]:
  "sys_job (jump_out cfg on s) = sys_job s" "sys_busy (jump_out cfg on s) = sys_busy s"
  "sys_tasks (jump_out cfg on s) = sys_tasks s" "sys_running (jump_out cfg on s) = sys_running s"
  "sys_decoder (jump_out cfg on s) = sys_decoder s"
  "sys_thread_trim (jump_out cfg on s) = sys_thread_trim s" "sys_thread_change (jump_out cfg on s) = sys_thread_change s"
  by (simp_all add: jump_out_def)

lemma mc_line_fields [simp]:
  "sys_job (mc_line s) = sys_job s" "sys_busy (mc_line s) = sys_busy s"
  "sys_tasks (mc_line s) = sys_tasks s" "sys_running (mc_line s) = sys_running s"
  "sys_decoder (mc_line s) = sys_decoder s"
  "sys_thread_trim (mc_line s) = sys_thread_trim s" "sys_thread_change (mc_line s) = sys_thread_change s"
  "sys_trace (mc_line s) = sys_trace s @ [Mc_line (job_position (sys_job s)) (job_rapid_motion (sys_job s))]"
  by (simp_all add: mc_line_def)

lemma task_add_immediate_fields [simp]:
  "sys_job (task_add_immediate ok t s) = sys_job s" "sys_busy (task_add_immediate ok t s) = sys_busy s"
  "sys_tasks (task_add_immediate ok t s) = sys_tasks s @ (if ok then [t] else [])"
  "sys_running (task_add_immediate ok t s) = sys_running s"
  "sys_decoder (task_add_immediate ok t s) = sys_decoder s"
  "sys_thread_trim (task_add_immediate ok t s) = sys_thread_trim s"
  "sys_thread_change (task_add_immediate ok t s) = sys_thread_change s"
  "sys_trace (task_add_immediate ok t s) = sys_trace s @ (if ok then [Task_added t] else [])"
  by (simp_all add: task_add_immediate_def)

lemma end_job_fields [simp]:
  "sys_job (end_job cfg s) =
     (sys_job s)\<lparr>job_completed := True, job_enqueued := True, job_file := False, job_spindle_on := False\<rparr>"
  "sys_busy (end_job cfg s) = sys_busy s"
  "sys_tasks (end_job cfg s) = sys_tasks s" "sys_running (end_job cfg s) = sys_running s"
  "sys_decoder (end_job cfg s) = sys_decoder s"
  "sys_thread_trim (end_job cfg s) = sys_thread_trim s" "sys_thread_change (end_job cfg s) = sys_thread_change s"
  by (simp_all add: end_job_def Let_def)


lemma look_ahead_fields [simp]:
  "sys_job (look_ahead cfg s) =
     (if job_stitching (sys_job s)
         \<and> queue_tail (job_queue (sys_job s)) \<noteq> queue_head (job_queue (sys_job s))
         \<and> stitch_type (queue_stitch (job_queue (sys_job s)) (queue_tail (job_queue (sys_job s)))) \<noteq> Stitch_Normal
         \<and> stitch_type (queue_stitch (job_queue (sys_job s)) (queue_tail (job_queue (sys_job s)))) \<noteq> Stitch_Jump
         \<and> cfg_stop_delay cfg \<noteq> 0
      then (sys_job s)\<lparr>job_spindle_stop := ucast (cfg_stop_delay cfg)\<rparr> else sys_job s)"
  "sys_busy (look_ahead cfg s) = sys_busy s"
  "sys_tasks (look_ahead cfg s) = sys_tasks s" "sys_running (look_ahead cfg s) = sys_running s"
  "sys_decoder (look_ahead cfg s) = sys_decoder s"
  "sys_thread_trim (look_ahead cfg s) = sys_thread_trim s"
  "sys_thread_change (look_ahead cfg s) = sys_thread_change s"
  by (simp_all add: look_ahead_def Let_def)

lemma move_by_fields [simp]:
  "job_queue (move_by st j) = job_queue j" "job_programmed (move_by st j) = job_programmed j"
  "job_executed (move_by st j) = job_executed j"
  by (simp_all add: move_by_def)

lemma dispatch_fields [simp]:
  "job_queue (sys_job (dispatch cfg env st s)) = job_queue (sys_job s)"
  "job_programmed (sys_job (dispatch cfg env st s)) = job_programmed (sys_job s)"
  "job_executed (sys_job (dispatch cfg env st s)) =
     (if stitch_type st = Stitch_Jump then
        (job_executed (sys_job s))\<lparr>det_jumps := det_jumps (job_executed (sys_job s)) + 1\<rparr>
      else job_executed (sys_job s))"
  "sys_tasks (dispatch cfg env st s) =
     sys_tasks s @ (if env_task_ok env \<and> stitch_type st = Stitch_Trim then [Exec_thread_trim]
                    else if env_task_ok env \<and> stitch_type st = Stitch_Stop then [Exec_thread_change]
                    else [])"
  "sys_running (dispatch cfg env st s) = sys_running s"
  "sys_decoder (dispatch cfg env st s) = sys_decoder s"
  "sys_thread_trim (dispatch cfg env st s) = sys_thread_trim s"
  "sys_thread_change (dispatch cfg env st s) = sys_thread_change s"
  by (simp_all add: dispatch_def Let_def split: stich_type_t.splits)

lemma deferred_stop_fields [simp]:
  "sys_job (deferred_stop cfg env s) =
     (if stop_due env (sys_job s) then (sys_job s)\<lparr>job_spindle_on := False, job_spindle_stop := 0\<rparr>
      else sys_job s)"
  "sys_busy (deferred_stop cfg env s) = sys_busy s"
  "sys_tasks (deferred_stop cfg env s) = sys_tasks s"
  "sys_running (deferred_stop cfg env s) = sys_running s"
  "sys_decoder (deferred_stop cfg env s) = sys_decoder s"
  "sys_thread_trim (deferred_stop cfg env s) = sys_thread_trim s"
  "sys_thread_change (deferred_stop cfg env s) = sys_thread_change s"
  "sys_trace (deferred_stop cfg env s) =
     sys_trace s @ (if stop_due env (sys_job s) \<and> job_spindle_on (sys_job s) \<and> cfg_sync_mode cfg
                    then [Spindle_set_state False] else [])"
  by (simp_all add: deferred_stop_def)

lemma take_stitch_fields [simp]:
  "job_queue (sys_job (take_stitch cfg env s)) =
      (job_queue (sys_job s))\<lparr>queue_tail := (queue_tail (job_queue (sys_job s)) + 1) mod STITCH_QUEUE_SIZE\<rparr>"
  "job_programmed (sys_job (take_stitch cfg env s)) = job_programmed (sys_job s)"
  "job_executed (sys_job (take_stitch cfg env s)) =
     (if stitch_type (queue_stitch (job_queue (sys_job s)) (queue_tail (job_queue (sys_job s)))) = Stitch_Jump
      then (job_executed (sys_job s))\<lparr>det_jumps := det_jumps (job_executed (sys_job s)) + 1\<rparr>
      else job_executed (sys_job s))"
  "sys_tasks (take_stitch cfg env s) =
     sys_tasks s @
      (if env_task_ok env \<and> stitch_type (queue_stitch (job_queue (sys_job s)) (queue_tail (job_queue (sys_job s)))) = Stitch_Trim
       then [Exec_thread_trim]
       else if env_task_ok env \<and> stitch_type (queue_stitch (job_queue (sys_job s)) (queue_tail (job_queue (sys_job s)))) = Stitch_Stop
       then [Exec_thread_change] else [])"
  "sys_running (take_stitch cfg env s) = sys_running s"
  "sys_decoder (take_stitch cfg env s) = sys_decoder s"
  "sys_thread_trim (take_stitch cfg env s) = sys_thread_trim s"
  "sys_thread_change (take_stitch cfg env s) = sys_thread_change s"
  by (simp_all add: take_stitch_def Let_def)

lemma tick_idle:
  assumes "sys_busy s \<or> job_completed (sys_job s)"
  shows "onExecuteRealtime cfg env s = emit [Chained_handler] s"
  using assms by (auto simp: onExecuteRealtime_def Let_def)

lemma tick_waits:
  assumes "\<not> sys_busy s" "\<not> job_completed (sys_job s)"
    and "await_value (job_await (sys_job s)) \<noteq> 0
         \<or> (env_blocks env < 3
             \<and> \<not> (job_enqueued (sys_job s)
                    \<and> queue_tail (job_queue (sys_job s)) = queue_head (job_queue (sys_job s))))"
  shows "onExecuteRealtime cfg env s = deferred_stop cfg env (emit [Chained_handler] s)"
  using assms by (auto simp: onExecuteRealtime_def Let_def)

lemma tick_finalizes:
  assumes "\<not> sys_busy s" "\<not> job_completed (sys_job s)" "await_value (job_await (sys_job s)) = 0"
    "job_enqueued (sys_job s)" "queue_tail (job_queue (sys_job s)) = queue_head (job_queue (sys_job s))"
  shows "sys_job (onExecuteRealtime cfg env s) =
      (sys_job s)\<lparr>job_spindle_stop := if stop_due env (sys_job s) then 0 else job_spindle_stop (sys_job s),
                  job_completed := True, job_enqueued := True, job_file := False,
                  job_spindle_on := False\<rparr>"
  using assms by (auto simp: onExecuteRealtime_def Let_def)


section \<open>Proofs: the real-time tick\<close>

text \<open>
  Claim C2, as the code has it. A tick that finds \<open>busy\<close> or \<open>completed\<close> set leaves the job
  as it is. Otherwise, when an await flag is set, or fewer than 3 planner blocks are free
  and the job is not at its end (\<open>enqueued\<close> with an empty queue), the tick changes nothing
  but the deferred stop of the needle motor (motor off and \<open>spindle_stop\<close> cleared when the
  stop is due): queue, counters, position and flags stay, no task is added and the only
  calls are the chained handler and the stop of the motor. When no await flag is set,
  \<open>enqueued\<close> is set and the queue is empty, the tick ends the job (\<open>completed\<close> set, file
  closed, motor off) whatever the number of free blocks, and the queue stays as it is.
\<close>

theorem tick_back_pressure:
  "(sys_busy s \<or> job_completed (sys_job s) \<longrightarrow>
      sys_job (onExecuteRealtime cfg env s) = sys_job s \<and>
      sys_tasks (onExecuteRealtime cfg env s) = sys_tasks s \<and>
      sys_trace (onExecuteRealtime cfg env s) = sys_trace s @ [Chained_handler]) \<and>
   (\<not> sys_busy s \<and> \<not> job_completed (sys_job s) \<and>
      (await_value (job_await (sys_job s)) \<noteq> 0
       \<or> (env_blocks env < 3
           \<and> \<not> (job_enqueued (sys_job s)
                  \<and> queue_tail (job_queue (sys_job s)) = queue_head (job_queue (sys_job s))))) \<longrightarrow>
      sys_job (onExecuteRealtime cfg env s) =
        (if stop_due env (sys_job s) then (sys_job s)\<lparr>job_spindle_on := False, job_spindle_stop := 0\<rparr>
         else sys_job s) \<and>
      sys_tasks (onExecuteRealtime cfg env s) = sys_tasks s \<and>
      sys_trace (onExecuteRealtime cfg env s) =
        sys_trace s @ [Chained_handler]
          @ (if stop_due env (sys_job s) \<and> job_spindle_on (sys_job s) \<and> cfg_sync_mode cfg
             then [Spindle_set_state False] else [])) \<and>
   (\<not> sys_busy s \<and> \<not> job_completed (sys_job s) \<and> await_value (job_await (sys_job s)) = 0 \<and>
      job_enqueued (sys_job s) \<and>
      queue_tail (job_queue (sys_job s)) = queue_head (job_queue (sys_job s)) \<longrightarrow>
      sys_job (onExecuteRealtime cfg env s) =
        (sys_job s)\<lparr>job_spindle_stop := if stop_due env (sys_job s) then 0 else job_spindle_stop (sys_job s),
                    job_completed := True, job_enqueued := True, job_file := False,
                    job_spindle_on := False\<rparr>)"
proof (intro conjI impI)
  assume "sys_busy s \<or> job_completed (sys_job s)"
  then have e: "onExecuteRealtime cfg env s = emit [Chained_handler] s" by (rule tick_idle)
  show "sys_job (onExecuteRealtime cfg env s) = sys_job s"
    "sys_tasks (onExecuteRealtime cfg env s) = sys_tasks s"
    "sys_trace (onExecuteRealtime cfg env s) = sys_trace s @ [Chained_handler]"
    by (simp_all add: e)
next
  assume h: "\<not> sys_busy s \<and> \<not> job_completed (sys_job s) \<and>
      (await_value (job_await (sys_job s)) \<noteq> 0
       \<or> (env_blocks env < 3
           \<and> \<not> (job_enqueued (sys_job s)
                  \<and> queue_tail (job_queue (sys_job s)) = queue_head (job_queue (sys_job s)))))"
  then have e: "onExecuteRealtime cfg env s = deferred_stop cfg env (emit [Chained_handler] s)"
    by (intro tick_waits) simp_all
  show "sys_job (onExecuteRealtime cfg env s) =
        (if stop_due env (sys_job s) then (sys_job s)\<lparr>job_spindle_on := False, job_spindle_stop := 0\<rparr>
         else sys_job s)"
    "sys_tasks (onExecuteRealtime cfg env s) = sys_tasks s"
    "sys_trace (onExecuteRealtime cfg env s) =
        sys_trace s @ [Chained_handler]
          @ (if stop_due env (sys_job s) \<and> job_spindle_on (sys_job s) \<and> cfg_sync_mode cfg
             then [Spindle_set_state False] else [])"
    by (simp_all add: e)
next
  assume "\<not> sys_busy s \<and> \<not> job_completed (sys_job s) \<and> await_value (job_await (sys_job s)) = 0 \<and>
      job_enqueued (sys_job s) \<and>
      queue_tail (job_queue (sys_job s)) = queue_head (job_queue (sys_job s))"
  then show "sys_job (onExecuteRealtime cfg env s) =
        (sys_job s)\<lparr>job_spindle_stop := if stop_due env (sys_job s) then 0 else job_spindle_stop (sys_job s),
                    job_completed := True, job_enqueued := True, job_file := False,
                    job_spindle_on := False\<rparr>"
    by (intro tick_finalizes) simp_all
qed

theorem tick_back_pressure_witness:
  "sys_job (onExecuteRealtime cfg_default env_free s_await) =
     (sys_job s_await)\<lparr>job_spindle_on := False, job_spindle_stop := 0\<rparr> \<and>
   sys_trace (onExecuteRealtime cfg_default env_free s_await) = [Chained_handler, Spindle_set_state False] \<and>
   sys_job (onExecuteRealtime cfg_default env_free s_eof) =
     (sys_job s_eof)\<lparr>job_completed := True, job_file := False\<rparr> \<and>
   sys_job (onExecuteRealtime cfg_default env_free (sys_zero\<lparr>sys_busy := True\<rparr>)) = job_zero"
  using tick_back_pressure [of s_await cfg_default env_free]
    tick_back_pressure [of s_eof cfg_default env_free]
    tick_back_pressure [of "sys_zero\<lparr>sys_busy := True\<rparr>" cfg_default env_free]
  by (simp add: s_await_def s_eof_def sys_zero_def job_zero_def stop_due_def await_value_def
      env_free_def cfg_default_def)

text \<open>
  The claim as stated fails where the code acts by design: with an await flag set the tick
  still stops the needle motor when the stop is due (\<open>s_await\<close>), and with an empty queue
  and \<open>enqueued\<close> set it ends the job (\<open>s_eof\<close>).
\<close>

theorem tick_unchanged_counterexample:
  "await_value (job_await (sys_job s_await)) \<noteq> 0 \<and>
   job_spindle_on (sys_job (onExecuteRealtime cfg_default env_free s_await))
     \<noteq> job_spindle_on (sys_job s_await) \<and>
   queue_head (job_queue (sys_job s_eof)) = queue_tail (job_queue (sys_job s_eof)) \<and>
   job_completed (sys_job (onExecuteRealtime cfg_default env_free s_eof))
     \<noteq> job_completed (sys_job s_eof)"
  by (simp add: s_await_def s_eof_def sys_zero_def job_zero_def onExecuteRealtime_def Let_def
      await_value_def env_free_def cfg_default_def stop_due_def)

text \<open>
  With an empty queue, \<open>enqueued\<close> not yet set and three or more free blocks, no guard of
  \<open>onExecuteRealtime\<close> looks at \<open>head\<close>: on the freshly opened job \<open>s_open\<close> the tick
  advances the tail past the head and dispatches the old content of slot 0 (a Trim).
\<close>

lemma tick_takes_from_empty_queue:
  "queued (job_queue (sys_job s_open)) = [] \<and> \<not> job_enqueued (sys_job s_open) \<and>
   queue_head (job_queue (sys_job (onExecuteRealtime cfg_default env_free s_open))) = 0 \<and>
   queue_tail (job_queue (sys_job (onExecuteRealtime cfg_default env_free s_open))) = 1 \<and>
   length (queued (job_queue (sys_job (onExecuteRealtime cfg_default env_free s_open)))) = 7 \<and>
   sys_tasks (onExecuteRealtime cfg_default env_free s_open) = [Exec_thread_trim]"
  by (simp add: s_open_def start_job_def sys_zero_def job_zero_def onExecuteRealtime_def Let_def
      await_value_def env_free_def cfg_default_def slot0_def queued_def queue_len_def
      STITCH_QUEUE_SIZE_def stop_due_def)

subsection \<open>What a tick does to the queue and the counters\<close>

lemma deferred_stop_keeps [simp]:
  "job_queue (sys_job (deferred_stop cfg env s)) = job_queue (sys_job s)"
  "job_programmed (sys_job (deferred_stop cfg env s)) = job_programmed (sys_job s)"
  "job_executed (sys_job (deferred_stop cfg env s)) = job_executed (sys_job s)"
  "job_await (sys_job (deferred_stop cfg env s)) = job_await (sys_job s)"
  "job_enqueued (sys_job (deferred_stop cfg env s)) = job_enqueued (sys_job s)"
  "job_completed (sys_job (deferred_stop cfg env s)) = job_completed (sys_job s)"
  "job_stitching (sys_job (deferred_stop cfg env s)) = job_stitching (sys_job s)"
  "job_machine_state (sys_job (deferred_stop cfg env s)) = job_machine_state (sys_job s)"
  by (simp_all add: deferred_stop_def)

lemma tick_no_dispatch_fields:
  assumes "\<not> tick_dispatches env s"
  shows "job_queue (sys_job (onExecuteRealtime cfg env s)) = job_queue (sys_job s)"
    "job_programmed (sys_job (onExecuteRealtime cfg env s)) = job_programmed (sys_job s)"
    "job_executed (sys_job (onExecuteRealtime cfg env s)) = job_executed (sys_job s)"
    "sys_tasks (onExecuteRealtime cfg env s) = sys_tasks s"
    "sys_running (onExecuteRealtime cfg env s) = sys_running s"
    "sys_decoder (onExecuteRealtime cfg env s) = sys_decoder s"
    "sys_thread_trim (onExecuteRealtime cfg env s) = sys_thread_trim s"
    "sys_thread_change (onExecuteRealtime cfg env s) = sys_thread_change s"
  using assms
  by (auto simp: onExecuteRealtime_def tick_dispatches_def Let_def simp del: deferred_stop_fields(1))

lemma tick_dispatch_eq:
  assumes "tick_dispatches env s"
  shows "onExecuteRealtime cfg env s = take_stitch cfg env (deferred_stop cfg env (emit [Chained_handler] s))"
  using assms
  by (auto simp: onExecuteRealtime_def tick_dispatches_def Let_def simp del: deferred_stop_fields(1))

lemma tick_dispatch_fields:
  assumes "tick_dispatches env s"
  shows "job_queue (sys_job (onExecuteRealtime cfg env s)) =
      (job_queue (sys_job s))\<lparr>queue_tail := (queue_tail (job_queue (sys_job s)) + 1) mod STITCH_QUEUE_SIZE\<rparr>"
    "job_programmed (sys_job (onExecuteRealtime cfg env s)) = job_programmed (sys_job s)"
    "job_executed (sys_job (onExecuteRealtime cfg env s)) =
       (if stitch_type (queue_stitch (job_queue (sys_job s)) (queue_tail (job_queue (sys_job s)))) = Stitch_Jump
        then (job_executed (sys_job s))\<lparr>det_jumps := det_jumps (job_executed (sys_job s)) + 1\<rparr>
        else job_executed (sys_job s))"
    "sys_tasks (onExecuteRealtime cfg env s) =
       sys_tasks s @
        (if env_task_ok env \<and> stitch_type (queue_stitch (job_queue (sys_job s)) (queue_tail (job_queue (sys_job s)))) = Stitch_Trim
         then [Exec_thread_trim]
         else if env_task_ok env \<and> stitch_type (queue_stitch (job_queue (sys_job s)) (queue_tail (job_queue (sys_job s)))) = Stitch_Stop
         then [Exec_thread_change] else [])"
    "sys_running (onExecuteRealtime cfg env s) = sys_running s"
    "sys_decoder (onExecuteRealtime cfg env s) = sys_decoder s"
    "sys_thread_trim (onExecuteRealtime cfg env s) = sys_thread_trim s"
    "sys_thread_change (onExecuteRealtime cfg env s) = sys_thread_change s"
  unfolding tick_dispatch_eq [OF assms]
  by (simp_all del: deferred_stop_fields(1))


section \<open>Proofs: the counters along a run\<close>

lemma set_needle_trigger_fields [simp]:
  "job_queue (sys_job (set_needle_trigger ticks s)) = job_queue (sys_job s)"
  "job_programmed (sys_job (set_needle_trigger ticks s)) = job_programmed (sys_job s)"
  "det_jumps (job_executed (sys_job (set_needle_trigger ticks s))) = det_jumps (job_executed (sys_job s))"
  "det_trims (job_executed (sys_job (set_needle_trigger ticks s))) = det_trims (job_executed (sys_job s))"
  "det_thread_changes (job_executed (sys_job (set_needle_trigger ticks s))) = det_thread_changes (job_executed (sys_job s))"
  "det_sequin_ejects (job_executed (sys_job (set_needle_trigger ticks s))) = det_sequin_ejects (job_executed (sys_job s))"
  "sys_tasks (set_needle_trigger ticks s) = sys_tasks s"
  "sys_running (set_needle_trigger ticks s) = sys_running s"
  by (simp_all add: set_needle_trigger_def Let_def)

lemma onStateChanged_fields [simp]:
  "job_queue (sys_job (onStateChanged cfg ticks state s)) = job_queue (sys_job s)"
  "job_programmed (sys_job (onStateChanged cfg ticks state s)) = job_programmed (sys_job s)"
  "job_executed (sys_job (onStateChanged cfg ticks state s)) = job_executed (sys_job s)"
  "sys_tasks (onStateChanged cfg ticks state s) = sys_tasks s"
  "sys_running (onStateChanged cfg ticks state s) = sys_running s"
  by (simp_all add: onStateChanged_def Let_def split: sys_state_t.splits)

lemma thread_break_fields [simp]:
  "job_queue (sys_job (thread_break ok s)) = job_queue (sys_job s)"
  "job_programmed (sys_job (thread_break ok s)) = job_programmed (sys_job s)"
  "job_executed (sys_job (thread_break ok s)) = job_executed (sys_job s)"
  "sys_running (thread_break ok s) = sys_running s"
  "t \<noteq> Exec_hold \<Longrightarrow> count_task t (thread_break ok s) = count_task t s"
  by (simp_all add: thread_break_def Let_def count_task_def)

lemma task_begin_fields [simp]:
  "job_queue (sys_job (task_begin cfg t s)) = job_queue (sys_job s)"
  "job_programmed (sys_job (task_begin cfg t s)) = job_programmed (sys_job s)"
  "job_executed (sys_job (task_begin cfg t s)) = job_executed (sys_job s)"
  "sys_tasks (task_begin cfg t s) = sys_tasks s"
  "sys_running (task_begin cfg t s) = sys_running s"
  by (simp_all add: task_begin_def thread_trim_begin_def thread_change_begin_def exec_hold_begin_def
      split: task.splits)

lemma task_end_fields [simp]:
  "job_queue (sys_job (task_end t s)) = job_queue (sys_job s)"
  "job_programmed (sys_job (task_end t s)) = job_programmed (sys_job s)"
  "job_executed (sys_job (task_end t s)) =
     (if t = Exec_thread_trim \<and> sys_thread_trim s = Default_handler then
        (job_executed (sys_job s))\<lparr>det_trims := det_trims (job_executed (sys_job s)) + 1\<rparr>
      else if t = Exec_thread_change \<and> sys_thread_change s = Default_handler then
        (job_executed (sys_job s))\<lparr>det_thread_changes := det_thread_changes (job_executed (sys_job s)) + 1\<rparr>
      else job_executed (sys_job s))"
  "sys_tasks (task_end t s) = sys_tasks s"
  "sys_running (task_end t s) = sys_running s"
  by (simp_all add: task_end_def thread_trim_end_def thread_change_end_def exec_hold_end_def
      split: task.splits)


lemma unat_inc:
  fixes w :: uint32_t
  assumes "unat w \<le> n" "Suc n < 2 ^ 32"
  shows "unat (w + 1) = Suc (unat w)"
proof -
  have "unat (w + 1) = (unat w + 1) mod 2 ^ 32" by (simp add: unat_word_ariths)
  also have "\<dots> = unat w + 1" using assms by simp
  finally show ?thesis by simp
qed

lemma count_type_push:
  assumes "queue_ok q" "(queue_head q + 1) mod STITCH_QUEUE_SIZE \<noteq> queue_tail q"
  shows "count_type t (q\<lparr>queue_stitch := (queue_stitch q)(queue_head q := x),
                   queue_head := (queue_head q + 1) mod STITCH_QUEUE_SIZE\<rparr>)
         = count_type t q + (if stitch_type x = t then 1 else 0)"
  using queued_push [OF assms(1), of x] assms(2)
  by (simp add: count_type_def STITCH_QUEUE_SIZE_def del: One_nat_def)

lemma count_type_write_head:
  assumes "queue_ok q"
  shows "count_type t (q\<lparr>queue_stitch := (queue_stitch q)(queue_head q := x)\<rparr>) = count_type t q"
  using queued_write_head [OF assms, of x] by (simp add: count_type_def)

lemma count_type_pop:
  assumes "queue_ok q" "queue_head q \<noteq> queue_tail q"
  shows "count_type t q =
     (if stitch_type (queue_stitch q (queue_tail q)) = t then 1 else 0)
       + count_type t (q\<lparr>queue_tail := (queue_tail q + 1) mod STITCH_QUEUE_SIZE\<rparr>)"
  using queued_pop [OF assms]
  by (simp add: count_type_def STITCH_QUEUE_SIZE_def del: One_nat_def)

lemma queue_ok_push: "queue_ok q \<Longrightarrow>
   queue_ok (q\<lparr>queue_stitch := f, queue_head := (queue_head q + 1) mod STITCH_QUEUE_SIZE\<rparr>)"
  by (simp add: queue_ok_def STITCH_QUEUE_SIZE_def)

lemma queue_ok_pop: "queue_ok q \<Longrightarrow>
   queue_ok (q\<lparr>queue_tail := (queue_tail q + 1) mod STITCH_QUEUE_SIZE\<rparr>)"
  by (simp add: queue_ok_def STITCH_QUEUE_SIZE_def)

lemma queue_ok_write: "queue_ok (q\<lparr>queue_stitch := f\<rparr>) = queue_ok q"
  by (simp add: queue_ok_def)

lemma counters_ok_mono: "counters_ok n s \<Longrightarrow> counters_ok (Suc n) s"
  by (auto simp: counters_ok_def Let_def)

lemma counters_ok_cong:
  assumes "counters_ok n s"
    "job_queue (sys_job s') = job_queue (sys_job s)"
    "job_programmed (sys_job s') = job_programmed (sys_job s)"
    "det_jumps (job_executed (sys_job s')) = det_jumps (job_executed (sys_job s))"
    "det_trims (job_executed (sys_job s')) = det_trims (job_executed (sys_job s))"
    "det_thread_changes (job_executed (sys_job s')) = det_thread_changes (job_executed (sys_job s))"
    "det_sequin_ejects (job_executed (sys_job s')) = det_sequin_ejects (job_executed (sys_job s))"
    "count_task Exec_thread_trim s' \<le> count_task Exec_thread_trim s"
    "count_task Exec_thread_change s' \<le> count_task Exec_thread_change s"
  shows "counters_ok (Suc n) s'"
  using assms by (auto simp: counters_ok_def Let_def)

lemma sdcard_read_ok:
  assumes inv: "counters_ok n s" and n: "Suc n < 2 ^ 32"
  shows "counters_ok (Suc n) (sdcard_read get_stitch s)"
proof (cases "job_enqueued (sys_job s) \<or>
     (queue_head (job_queue (sys_job s)) + 1) mod STITCH_QUEUE_SIZE = queue_tail (job_queue (sys_job s))")
  case True
  then show ?thesis using inv by (simp add: sdcard_read_idle counters_ok_mono)
next
  case False
  have ok: "queue_ok (job_queue (sys_job s))" using inv by (simp add: counters_ok_def Let_def)
  obtain r stitch d where g: "get_stitch (queue_stitch (job_queue (sys_job s)) (queue_head (job_queue (sys_job s)))) (sys_decoder s)
       = (r, stitch, d)" by (metis prod_cases3)
  show ?thesis
  proof (cases r)
    case True
    have e: "sdcard_read get_stitch s =
     s\<lparr>sys_decoder := d,
       sys_job := (sys_job s)
         \<lparr>job_queue := (job_queue (sys_job s))
             \<lparr>queue_stitch := (queue_stitch (job_queue (sys_job s)))
                  (queue_head (job_queue (sys_job s)) := stitch),
              queue_head := (queue_head (job_queue (sys_job s)) + 1) mod STITCH_QUEUE_SIZE\<rparr>,
          job_enqueued := False,
          job_programmed := count_programmed (stitch_type stitch) (job_programmed (sys_job s))\<rparr>\<rparr>"
      using False g True by (intro sdcard_read_push) simp_all
    have ne: "(queue_head (job_queue (sys_job s)) + 1) mod STITCH_QUEUE_SIZE \<noteq> queue_tail (job_queue (sys_job s))"
      using False by simp
    have inc: "unat (det_jumps (job_programmed (sys_job s)) + 1) = Suc (unat (det_jumps (job_programmed (sys_job s))))"
      "unat (det_trims (job_programmed (sys_job s)) + 1) = Suc (unat (det_trims (job_programmed (sys_job s))))"
      "unat (det_thread_changes (job_programmed (sys_job s)) + 1) = Suc (unat (det_thread_changes (job_programmed (sys_job s))))"
      using inv n by (auto simp: counters_ok_def Let_def intro!: unat_inc)
    show ?thesis
      using inv
      unfolding e counters_ok_def Let_def
      by (cases "stitch_type stitch")
         (simp_all add: count_type_push [OF ok ne] queue_ok_push [OF ok] count_programmed_def inc count_task_def
            del: One_nat_def)
  next
    case r: False
    have e: "sdcard_read get_stitch s =
     s\<lparr>sys_decoder := d,
       sys_job := (sys_job s)
         \<lparr>job_queue := (job_queue (sys_job s))
             \<lparr>queue_stitch := (queue_stitch (job_queue (sys_job s)))
                  (queue_head (job_queue (sys_job s)) := stitch)\<rparr>,
          job_enqueued := True\<rparr>\<rparr>"
      using False g r by (intro sdcard_read_end) simp_all
    show ?thesis
      using inv
      unfolding e counters_ok_def Let_def
      by (simp add: count_type_write_head [OF ok] queue_ok_write count_task_def)
  qed
qed


lemma tick_ok:
  assumes inv: "counters_ok n s" and n: "Suc n < 2 ^ 32"
    and fed: "\<not> pops_empty cfg (Ev_tick env) s"
  shows "counters_ok (Suc n) (onExecuteRealtime cfg env s)"
proof (cases "tick_dispatches env s")
  case False
  show ?thesis
    by (rule counters_ok_cong [OF inv])
       (simp_all add: tick_no_dispatch_fields [OF False] count_task_def)
next
  case True
  let ?q = "job_queue (sys_job s)"
  let ?st = "queue_stitch ?q (queue_tail ?q)"
  have ok: "queue_ok ?q" using inv by (simp add: counters_ok_def Let_def)
  have "(queue_tail ?q + 1) mod 8 \<noteq> queue_tail ?q"
    using ok by (intro ring_succ_ne) (simp add: queue_ok_def STITCH_QUEUE_SIZE_def)
  then have "queue_tail (job_queue (sys_job (onExecuteRealtime cfg env s))) \<noteq> queue_tail ?q"
    by (simp add: tick_dispatch_fields [OF True] STITCH_QUEUE_SIZE_def del: One_nat_def)
  with fed have ne: "queue_head ?q \<noteq> queue_tail ?q" by (auto simp: pops_empty_def)
  note pop = count_type_pop [OF ok ne]
  have incj: "unat (det_jumps (job_executed (sys_job s)) + 1) = Suc (unat (det_jumps (job_executed (sys_job s))))"
    using inv n by (intro unat_inc [of _ n]) (auto simp: counters_ok_def Let_def)
  show ?thesis
    using inv pop [of Stitch_Jump] pop [of Stitch_Trim] pop [of Stitch_Stop]
    unfolding counters_ok_def Let_def
    by (cases "stitch_type ?st")
       (simp_all add: tick_dispatch_fields [OF True] queue_ok_pop [OF ok] incj count_task_def
          del: One_nat_def)
qed

lemma trigger_ok:
  assumes "counters_ok n s"
  shows "counters_ok (Suc n) (set_needle_trigger ticks s)"
  by (rule counters_ok_cong [OF assms]) (simp_all add: count_task_def)

lemma state_changed_ok:
  assumes "counters_ok n s"
  shows "counters_ok (Suc n) (onStateChanged cfg ticks state s)"
  by (rule counters_ok_cong [OF assms]) (simp_all add: count_task_def)

lemma thread_break_ok:
  assumes "counters_ok n s"
  shows "counters_ok (Suc n) (thread_break ok s)"
  by (rule counters_ok_cong [OF assms]) simp_all

lemma reset_ok:
  assumes "counters_ok n s"
  shows "counters_ok (Suc n) (end_job cfg s)"
  by (rule counters_ok_cong [OF assms]) (simp_all add: count_task_def)

lemma task_begin_ok:
  assumes "counters_ok n s"
  shows "counters_ok (Suc n) (step cfg get_stitch Ev_task_begin s)"
proof (cases "sys_tasks s")
  case Nil
  then show ?thesis using assms by (simp add: step_def counters_ok_mono)
next
  case (Cons t ts)
  show ?thesis
    by (rule counters_ok_cong [OF assms]) (simp_all add: step_def Cons count_task_def)
qed

lemma task_end_ok:
  assumes inv: "counters_ok n s" and n: "Suc n < 2 ^ 32"
  shows "counters_ok (Suc n) (step cfg get_stitch Ev_task_end s)"
proof (cases "sys_running s")
  case Nil
  then show ?thesis using inv by (simp add: step_def counters_ok_mono)
next
  case (Cons t ts)
  have inct: "unat (det_trims (job_executed (sys_job s)) + 1) = Suc (unat (det_trims (job_executed (sys_job s))))"
    using inv n by (intro unat_inc [of _ n]) (auto simp: counters_ok_def Let_def)
  have incc: "unat (det_thread_changes (job_executed (sys_job s)) + 1) = Suc (unat (det_thread_changes (job_executed (sys_job s))))"
    using inv n by (intro unat_inc [of _ n]) (auto simp: counters_ok_def Let_def)
  show ?thesis
    using inv unfolding counters_ok_def Let_def
    by (cases t) (auto simp: step_def Cons count_task_def inct incc)
qed

lemma step_ok:
  assumes inv: "counters_ok n s" and n: "Suc n < 2 ^ 32"
    and fed: "\<not> pops_empty cfg ev s"
  shows "counters_ok (Suc n) (step cfg get_stitch ev s)"
proof (cases ev)
  case Ev_sdcard_read
  then show ?thesis using sdcard_read_ok [OF inv n] by (simp add: step_def)
next
  case (Ev_tick env)
  then show ?thesis using tick_ok [OF inv n] fed by (simp add: step_def)
next
  case (Ev_needle_trigger ticks)
  then show ?thesis using trigger_ok [OF inv] by (simp add: step_def)
next
  case (Ev_state_changed ticks state)
  then show ?thesis using state_changed_ok [OF inv] by (simp add: step_def)
next
  case (Ev_thread_break ok)
  then show ?thesis using thread_break_ok [OF inv] by (simp add: step_def)
next
  case Ev_task_begin
  then show ?thesis using task_begin_ok [OF inv] by simp
next
  case Ev_task_end
  then show ?thesis using task_end_ok [OF inv n] by simp
next
  case Ev_reset
  then show ?thesis using reset_ok [OF inv] by (simp add: step_def)
qed

lemma run_ok:
  "counters_ok n s \<Longrightarrow> n + length evs < 2 ^ 32 \<Longrightarrow> fed_run cfg get_stitch evs s \<Longrightarrow>
     counters_ok (n + length evs) (run cfg get_stitch evs s)"
proof (induction evs arbitrary: n s)
  case Nil
  then show ?case by simp
next
  case (Cons ev evs)
  have n: "Suc n < 2 ^ 32" using Cons.prems(2) by simp
  have fed: "\<not> pops_empty cfg ev s" and rest: "fed_run cfg get_stitch evs (step cfg get_stitch ev s)"
    using Cons.prems(3) by simp_all
  have "counters_ok (Suc n) (step cfg get_stitch ev s)"
    by (rule step_ok [OF Cons.prems(1) n fed])
  from Cons.IH [OF this _ rest] Cons.prems(2)
  show ?case by simp
qed


lemma start_job_ok:
  assumes "sys_tasks s = []" "sys_running s = []"
  shows "counters_ok 0 (start_job cfg mpos s)"
  using assms
  by (simp add: counters_ok_def Let_def start_job_def zero_details_def queue_ok_def STITCH_QUEUE_SIZE_def
      count_type_def queued_def queue_len_def count_task_def)

lemma counters_ok_le:
  assumes "counters_ok n s"
  shows "details_le_moves (job_executed (sys_job s)) (job_programmed (sys_job s))"
  using assms
  by (auto simp: counters_ok_def Let_def details_le_moves_def word_le_nat_alt)

lemma sdcard_read_counters:
  assumes ok: "queue_ok (job_queue (sys_job s))"
  shows "job_executed (sys_job (sdcard_read get_stitch s)) = job_executed (sys_job s) \<and>
   job_programmed (sys_job (sdcard_read get_stitch s)) =
     (if queue_head (job_queue (sys_job (sdcard_read get_stitch s))) \<noteq> queue_head (job_queue (sys_job s))
      then count_programmed
             (stitch_type (queue_stitch (job_queue (sys_job (sdcard_read get_stitch s)))
                                        (queue_head (job_queue (sys_job s)))))
             (job_programmed (sys_job s))
      else job_programmed (sys_job s))"
proof (cases "job_enqueued (sys_job s) \<or>
     (queue_head (job_queue (sys_job s)) + 1) mod STITCH_QUEUE_SIZE = queue_tail (job_queue (sys_job s))")
  case True
  then show ?thesis by (simp add: sdcard_read_idle)
next
  case False
  obtain r stitch d where g: "get_stitch (queue_stitch (job_queue (sys_job s)) (queue_head (job_queue (sys_job s)))) (sys_decoder s)
       = (r, stitch, d)" by (metis prod_cases3)
  have sn: "(queue_head (job_queue (sys_job s)) + 1) mod STITCH_QUEUE_SIZE \<noteq> queue_head (job_queue (sys_job s))"
    using ok ring_succ_ne [of "queue_head (job_queue (sys_job s))"]
    by (simp add: queue_ok_def STITCH_QUEUE_SIZE_def del: One_nat_def)
  show ?thesis
  proof (cases r)
    case True
    show ?thesis
      using False g True sn
      by (simp add: sdcard_read_push [where stitch = stitch and d = d] del: One_nat_def)
  next
    case r: False
    show ?thesis
      using False g r
      by (simp add: sdcard_read_end [where stitch = stitch and d = d])
  qed
qed

lemma tick_counters:
  "job_programmed (sys_job (onExecuteRealtime cfg env s)) = job_programmed (sys_job s) \<and>
   job_executed (sys_job (onExecuteRealtime cfg env s)) =
     (if tick_dispatches env s
         \<and> stitch_type (queue_stitch (job_queue (sys_job s)) (queue_tail (job_queue (sys_job s)))) = Stitch_Jump
      then (job_executed (sys_job s))\<lparr>det_jumps := det_jumps (job_executed (sys_job s)) + 1\<rparr>
      else job_executed (sys_job s))"
  by (cases "tick_dispatches env s") (simp_all add: tick_dispatch_fields tick_no_dispatch_fields)

lemma trigger_counters:
  "job_programmed (sys_job (set_needle_trigger ticks s)) = job_programmed (sys_job s) \<and>
   job_executed (sys_job (set_needle_trigger ticks s)) =
     (if await_trigger (job_await (sys_job s)) \<and> job_machine_state (sys_job s) = STATE_CYCLE
      then job_executed (sys_job s)
      else (job_executed (sys_job s))\<lparr>det_stitches := det_stitches (job_executed (sys_job s)) + 1\<rparr>)"
  by (simp add: set_needle_trigger_def Let_def)

lemma step_queue_ok:
  assumes "queue_ok (job_queue (sys_job s))"
  shows "queue_ok (job_queue (sys_job (step cfg get_stitch ev s)))"
proof (cases ev)
  case Ev_sdcard_read
  then show ?thesis using sdcard_read_queue [OF assms, of get_stitch] by (simp add: step_def)
next
  case (Ev_tick env)
  then show ?thesis using assms
    by (cases "tick_dispatches env s")
       (simp_all add: step_def tick_dispatch_fields tick_no_dispatch_fields queue_ok_pop del: One_nat_def)
next
  case Ev_task_begin
  then show ?thesis using assms by (cases "sys_tasks s") (simp_all add: step_def)
next
  case Ev_task_end
  then show ?thesis using assms by (cases "sys_running s") (simp_all add: step_def)
qed (use assms in \<open>simp_all add: step_def\<close>)

lemma run_queue_ok:
  "queue_ok (job_queue (sys_job s)) \<Longrightarrow> queue_ok (job_queue (sys_job (run cfg get_stitch evs s)))"
  by (induction evs arbitrary: s) (simp_all add: step_queue_ok)

lemma start_job_queue_ok: "queue_ok (job_queue (sys_job (start_job cfg mpos s)))"
  by (simp add: start_job_def queue_ok_def STITCH_QUEUE_SIZE_def)

lemma queue_full_iff:
  assumes "queue_ok q"
  shows "((queue_head q + 1) mod STITCH_QUEUE_SIZE = queue_tail q) = (length (queued q) = STITCH_QUEUE_SIZE - 1)"
  using assms ring_full [of "queue_head q" "queue_tail q"]
  by (simp add: queued_length queue_len_def queue_ok_def STITCH_QUEUE_SIZE_def del: One_nat_def)


section \<open>The claims on the queue and the counters\<close>

text \<open>
  Claim C3. Along every run of a job \<open>head\<close> and \<open>tail\<close> stay below \<open>STITCH_QUEUE_SIZE = 8\<close>.
  For such a queue: it holds at most 7 stitches; it is empty exactly when \<open>head = tail\<close>
  and full exactly when \<open>(head + 1) mod 8 = tail\<close>; \<open>sdcard_read\<close> on a full queue changes
  nothing at all; \<open>sdcard_read\<close> never moves the tail; when it advances the head the queue
  was not full, the head moves by one and the new stitch is appended behind the queued
  ones; when it does not advance the head the queued stitches are as before.
\<close>

theorem stitch_queue_bounded:
  "queue_ok (job_queue (sys_job (run cfg get_stitch evs (start_job cfg mpos init)))) \<and>
   (queue_ok (job_queue (sys_job s)) \<longrightarrow>
      length (queued (job_queue (sys_job s))) \<le> STITCH_QUEUE_SIZE - 1 \<and>
      (queued (job_queue (sys_job s)) = []
         \<longleftrightarrow> queue_head (job_queue (sys_job s)) = queue_tail (job_queue (sys_job s))) \<and>
      ((queue_head (job_queue (sys_job s)) + 1) mod STITCH_QUEUE_SIZE = queue_tail (job_queue (sys_job s))
         \<longleftrightarrow> length (queued (job_queue (sys_job s))) = STITCH_QUEUE_SIZE - 1) \<and>
      ((queue_head (job_queue (sys_job s)) + 1) mod STITCH_QUEUE_SIZE = queue_tail (job_queue (sys_job s))
         \<longrightarrow> sdcard_read get_stitch s = s) \<and>
      queue_tail (job_queue (sys_job (sdcard_read get_stitch s))) = queue_tail (job_queue (sys_job s)) \<and>
      queue_ok (job_queue (sys_job (sdcard_read get_stitch s))) \<and>
      length (queued (job_queue (sys_job (sdcard_read get_stitch s)))) \<le> STITCH_QUEUE_SIZE - 1 \<and>
      (queue_head (job_queue (sys_job (sdcard_read get_stitch s))) \<noteq> queue_head (job_queue (sys_job s)) \<longrightarrow>
         (queue_head (job_queue (sys_job s)) + 1) mod STITCH_QUEUE_SIZE \<noteq> queue_tail (job_queue (sys_job s))
         \<and> queue_head (job_queue (sys_job (sdcard_read get_stitch s)))
              = (queue_head (job_queue (sys_job s)) + 1) mod STITCH_QUEUE_SIZE
         \<and> queued (job_queue (sys_job (sdcard_read get_stitch s)))
              = queued (job_queue (sys_job s))
                @ [queue_stitch (job_queue (sys_job (sdcard_read get_stitch s)))
                     (queue_head (job_queue (sys_job s)))]) \<and>
      (queue_head (job_queue (sys_job (sdcard_read get_stitch s))) = queue_head (job_queue (sys_job s)) \<longrightarrow>
         queued (job_queue (sys_job (sdcard_read get_stitch s))) = queued (job_queue (sys_job s))))"
proof -
  have run: "queue_ok (job_queue (sys_job (run cfg get_stitch evs (start_job cfg mpos init))))"
    by (intro run_queue_ok start_job_queue_ok)
  have len: "\<And>q. length (queued q) \<le> STITCH_QUEUE_SIZE - 1"
    using queue_len_le by (simp add: queued_length STITCH_QUEUE_SIZE_def)
  have idle: "(queue_head (job_queue (sys_job s)) + 1) mod STITCH_QUEUE_SIZE = queue_tail (job_queue (sys_job s))
      \<Longrightarrow> sdcard_read get_stitch s = s"
    by (simp add: sdcard_read_idle)
  show ?thesis
    using run len [of "job_queue (sys_job s)"] len [of "job_queue (sys_job (sdcard_read get_stitch s))"]
      idle queued_empty [of "job_queue (sys_job s)"] queue_full_iff [of "job_queue (sys_job s)"]
      sdcard_read_queue [of s get_stitch]
    by blast
qed

lemma s_full_read: "sdcard_read tajima_decoder s_full = s_full"
  by (simp add: sdcard_read_def s_full_def sys_zero_def job_zero_def STITCH_QUEUE_SIZE_def)

lemma s_open_read:
  "queued (job_queue (sys_job (sdcard_read tajima_decoder s_open))) =
     [slot0\<lparr>stitch_type := Stitch_Normal,
            stitch_target := \<lparr>coord_x = 1 / 10, coord_y = 0, coord_z = 0\<rparr>\<rparr>]"
  by (simp add: sdcard_read_def s_open_def start_job_def sys_zero_def job_zero_def STITCH_QUEUE_SIZE_def
      tajima_decoder_def tajima_get_stitch_def vfs_read_def dst_file_def slot0_def get_x_def get_y_def
      bit_mask_def Let_def tajima_statics_init_def queued_def queue_len_def)


theorem stitch_queue_bounded_witness:
  "queue_ok (job_queue (sys_job s_full)) \<and> length (queued (job_queue (sys_job s_full))) = 7 \<and>
   sdcard_read tajima_decoder s_full = s_full \<and>
   queue_ok (job_queue (sys_job s_open)) \<and> queued (job_queue (sys_job s_open)) = [] \<and>
   queued (job_queue (sys_job (sdcard_read tajima_decoder s_open))) =
     [slot0\<lparr>stitch_type := Stitch_Normal,
            stitch_target := \<lparr>coord_x = 1 / 10, coord_y = 0, coord_z = 0\<rparr>\<rparr>]"
proof -
  have f: "queue_ok (job_queue (sys_job s_full))"
    "(queue_head (job_queue (sys_job s_full)) + 1) mod STITCH_QUEUE_SIZE = queue_tail (job_queue (sys_job s_full))"
    by (simp_all add: s_full_def sys_zero_def job_zero_def queue_ok_def STITCH_QUEUE_SIZE_def)
  have o: "queue_ok (job_queue (sys_job s_open))"
    "queue_head (job_queue (sys_job s_open)) = queue_tail (job_queue (sys_job s_open))"
    by (simp_all add: s_open_def start_job_def queue_ok_def STITCH_QUEUE_SIZE_def)
  from stitch_queue_bounded [of cfg_default tajima_decoder "[]" "\<lparr>coord_x = 0, coord_y = 0, coord_z = 0\<rparr>" sys_zero s_full] f
  have 1: "length (queued (job_queue (sys_job s_full))) = 7" "sdcard_read tajima_decoder s_full = s_full"
    by (simp_all add: STITCH_QUEUE_SIZE_def)
  from stitch_queue_bounded [of cfg_default tajima_decoder "[]" "\<lparr>coord_x = 0, coord_y = 0, coord_z = 0\<rparr>" sys_zero s_open] o
  have 2: "queued (job_queue (sys_job s_open)) = []" by simp
  show ?thesis using f(1) o(1) 1 2 s_open_read by simp
qed

text \<open>
  Claim C8, as the code has it. From the start of a job, with no deferred task of an
  earlier job left, along fewer than \<open>2^32\<close> events none of which takes a stitch out of an
  empty queue, the executed counters of jumps, trims, thread changes and sequin ejects are
  at most the programmed ones. \<open>sdcard_read\<close> increments the programmed counter of the type
  of the stitch it enqueues, once, and only then. Of the executed counters, a tick
  increments \<open>jumps\<close> once when it dispatches a Jump; the default trim and thread-change
  handlers, which the dispatch of a Trim or Stop schedules, increment \<open>trims\<close> and
  \<open>thread_changes\<close>; the needle trigger increments \<open>stitches\<close>, once for each trigger that
  does not come while an awaited move is still in cycle; nothing increments
  \<open>sequin_ejects\<close>.
\<close>

theorem counters_along_run:
  "(sys_tasks init = [] \<and> sys_running init = [] \<and> length evs < 2 ^ 32 \<and>
      fed_run cfg get_stitch evs (start_job cfg mpos init) \<longrightarrow>
      details_le_moves
        (job_executed (sys_job (run cfg get_stitch evs (start_job cfg mpos init))))
        (job_programmed (sys_job (run cfg get_stitch evs (start_job cfg mpos init))))) \<and>
   (queue_ok (job_queue (sys_job s)) \<longrightarrow>
      job_executed (sys_job (sdcard_read get_stitch s)) = job_executed (sys_job s) \<and>
      job_programmed (sys_job (sdcard_read get_stitch s)) =
        (if queue_head (job_queue (sys_job (sdcard_read get_stitch s))) \<noteq> queue_head (job_queue (sys_job s))
         then count_programmed
                (stitch_type (queue_stitch (job_queue (sys_job (sdcard_read get_stitch s)))
                                           (queue_head (job_queue (sys_job s)))))
                (job_programmed (sys_job s))
         else job_programmed (sys_job s))) \<and>
   job_programmed (sys_job (onExecuteRealtime cfg env s)) = job_programmed (sys_job s) \<and>
   job_executed (sys_job (onExecuteRealtime cfg env s)) =
     (if tick_dispatches env s
         \<and> stitch_type (queue_stitch (job_queue (sys_job s)) (queue_tail (job_queue (sys_job s)))) = Stitch_Jump
      then (job_executed (sys_job s))\<lparr>det_jumps := det_jumps (job_executed (sys_job s)) + 1\<rparr>
      else job_executed (sys_job s)) \<and>
   job_programmed (sys_job (set_needle_trigger ticks s)) = job_programmed (sys_job s) \<and>
   job_executed (sys_job (set_needle_trigger ticks s)) =
     (if await_trigger (job_await (sys_job s)) \<and> job_machine_state (sys_job s) = STATE_CYCLE
      then job_executed (sys_job s)
      else (job_executed (sys_job s))\<lparr>det_stitches := det_stitches (job_executed (sys_job s)) + 1\<rparr>) \<and>
   job_programmed (sys_job (task_end t s)) = job_programmed (sys_job s) \<and>
   job_executed (sys_job (task_end t s)) =
     (if t = Exec_thread_trim \<and> sys_thread_trim s = Default_handler then
        (job_executed (sys_job s))\<lparr>det_trims := det_trims (job_executed (sys_job s)) + 1\<rparr>
      else if t = Exec_thread_change \<and> sys_thread_change s = Default_handler then
        (job_executed (sys_job s))\<lparr>det_thread_changes := det_thread_changes (job_executed (sys_job s)) + 1\<rparr>
      else job_executed (sys_job s))"
proof -
  have r: "details_le_moves
        (job_executed (sys_job (run cfg get_stitch evs (start_job cfg mpos init))))
        (job_programmed (sys_job (run cfg get_stitch evs (start_job cfg mpos init))))"
    if h: "sys_tasks init = []" "sys_running init = []" "length evs < 2 ^ 32"
      "fed_run cfg get_stitch evs (start_job cfg mpos init)"
  proof -
    have 0: "counters_ok 0 (start_job cfg mpos init)" by (rule start_job_ok [OF h(1,2)])
    have "counters_ok (0 + length evs) (run cfg get_stitch evs (start_job cfg mpos init))"
      using h(3) by (intro run_ok [OF 0 _ h(4)]) simp
    then show ?thesis by (rule counters_ok_le)
  qed
  show ?thesis
    using r sdcard_read_counters [of s get_stitch] tick_counters [of cfg env s]
      trigger_counters [of ticks s] task_end_fields(2,3) [of t s]
    by blast
qed


lemma short_run_fed: "fed_run cfg_default tajima_decoder short_run s_open"
  by code_simp

lemma short_run_result:
  "job_completed (sys_job (run cfg_default tajima_decoder short_run s_open)) \<and>
   det_stitches (job_programmed (sys_job (run cfg_default tajima_decoder short_run s_open))) = 1 \<and>
   det_stitches (job_executed (sys_job (run cfg_default tajima_decoder short_run s_open))) = 1"
  by code_simp

theorem counters_along_run_witness:
  "fed_run cfg_default tajima_decoder short_run s_open \<and>
   details_le_moves
     (job_executed (sys_job (run cfg_default tajima_decoder short_run s_open)))
     (job_programmed (sys_job (run cfg_default tajima_decoder short_run s_open))) \<and>
   job_completed (sys_job (run cfg_default tajima_decoder short_run s_open)) \<and>
   det_stitches (job_programmed (sys_job (run cfg_default tajima_decoder short_run s_open))) = 1 \<and>
   det_stitches (job_executed (sys_job (run cfg_default tajima_decoder short_run s_open))) = 1"
proof -
  have h: "sys_tasks sys_zero = [] \<and> sys_running sys_zero = [] \<and> length short_run < 2 ^ 32 \<and>
      fed_run cfg_default tajima_decoder short_run
        (start_job cfg_default \<lparr>coord_x = 0, coord_y = 0, coord_z = 0\<rparr> sys_zero)"
    using short_run_fed by (simp add: sys_zero_def short_run_def s_open_def)
  from counters_along_run [where init = sys_zero and evs = short_run and cfg = cfg_default
      and get_stitch = tajima_decoder and mpos = "\<lparr>coord_x = 0, coord_y = 0, coord_z = 0\<rparr>"] h
  have "details_le_moves
     (job_executed (sys_job (run cfg_default tajima_decoder short_run s_open)))
     (job_programmed (sys_job (run cfg_default tajima_decoder short_run s_open)))"
    unfolding s_open_def by blast
  then show ?thesis using short_run_fed short_run_result by blast
qed

text \<open>
  The executed stitches are counted by the needle trigger, not at dispatch: one trigger on
  the freshly opened job and \<open>executed.stitches = 1\<close> exceeds \<open>programmed.stitches = 0\<close>.
\<close>

theorem executed_stitches_counterexample:
  "fed_run cfg_default tajima_decoder [Ev_needle_trigger 5] s_open \<and>
   det_stitches (job_executed (sys_job (run cfg_default tajima_decoder [Ev_needle_trigger 5] s_open))) = 1 \<and>
   det_stitches (job_programmed (sys_job (run cfg_default tajima_decoder [Ev_needle_trigger 5] s_open))) = 0 \<and>
   \<not> details_le
       (job_executed (sys_job (run cfg_default tajima_decoder [Ev_needle_trigger 5] s_open)))
       (job_programmed (sys_job (run cfg_default tajima_decoder [Ev_needle_trigger 5] s_open)))"
  by code_simp

text \<open>
  A tick that takes a stitch out of the empty queue of \<open>s_open\<close> dispatches the old Trim of
  slot 0, and when its task has run \<open>executed.trims = 1\<close> exceeds \<open>programmed.trims = 0\<close>.
\<close>

lemma stale_stitch_counted:
  "pops_empty cfg_default (Ev_tick env_free) s_open \<and>
   det_trims (job_executed (sys_job
      (run cfg_default tajima_decoder [Ev_tick env_free, Ev_task_begin, Ev_task_end] s_open))) = 1 \<and>
   det_trims (job_programmed (sys_job
      (run cfg_default tajima_decoder [Ev_tick env_free, Ev_task_begin, Ev_task_end] s_open))) = 0"
  by code_simp


end
